theory Spec2Isabelle
  imports Main
begin

section \<open>JavaScript values and strings\<close>

text \<open>
  A JavaScript string is modelled as a \<^typ>\<open>string\<close>, one \<^typ>\<open>char\<close> per UTF-16 code unit,
  so the model covers the strings whose code units are below 256 (the Latin-1 block, which
  holds the Norwegian letters of the role names). \<open>null\<close> and \<open>undefined\<close> of a
  \<open>string | null\<close> are both \<open>None\<close>: the routes only test them for truthiness.
\<close>

datatype jsval = JNull | JUndefined | JStr string

text \<open>The result of \<open>Number.parseInt\<close>: NaN, an infinity, or a finite integer.\<close>

datatype jsnum = NaN | PosInfinity | NegInfinity | Finite int

definition truthy :: "string option \<Rightarrow> bool" where
  "truthy v = (case v of None \<Rightarrow> False | Some s \<Rightarrow> s \<noteq> [])"

text \<open>\<open>a || b\<close> on two nullable strings, and \<open>a || "literal"\<close>.\<close>

definition js_or :: "string option \<Rightarrow> string option \<Rightarrow> string option" where
  "js_or a b = (if truthy a then a else b)"

definition or_str :: "string option \<Rightarrow> string \<Rightarrow> string" where
  "or_str a d = (case a of None \<Rightarrow> d | Some s \<Rightarrow> if s = [] then d else s)"

text \<open>
  White space as \<open>String.prototype.trim\<close> and \<open>parseInt\<close> skip it (WhiteSpace and
  LineTerminator of ECMAScript), below code unit 256: TAB, LF, VT, FF, CR, SP, NBSP.
\<close>

definition is_ws :: "char \<Rightarrow> bool" where
  "is_ws c = (c = CHR 0x09 \<or> c = CHR 0x0A \<or> c = CHR 0x0B \<or> c = CHR 0x0C \<or> c = CHR 0x0D
     \<or> c = CHR 0x20 \<or> c = CHR 0xA0)"

definition trimStart :: "string \<Rightarrow> string" where
  "trimStart s = dropWhile is_ws s"

definition trim :: "string \<Rightarrow> string" where
  "trim s = rev (dropWhile is_ws (rev (dropWhile is_ws s)))"

text \<open>
  \<open>toLowerCase\<close> on code units below 256: A-Z and the capitals 0xC0-0xDE (but the
  multiplication sign 0xD7) move up by 32, every other code unit is kept.
\<close>

definition lower_char :: "char \<Rightarrow> char" where
  "lower_char c =
     (let n = (of_char c :: nat)
      in if (65 \<le> n \<and> n \<le> 90) \<or> (192 \<le> n \<and> n \<le> 222 \<and> n \<noteq> 215)
         then char_of (n + 32) else c)"

definition toLowerCase :: "string \<Rightarrow> string" where
  "toLowerCase s = map lower_char s"

definition startsWith :: "string \<Rightarrow> string \<Rightarrow> bool" where
  "startsWith s p = (take (length p) s = p)"

text \<open>\<open>Array.prototype.join\<close> on strings.\<close>

fun join :: "string \<Rightarrow> string list \<Rightarrow> string" where
  "join sep [] = []"
| "join sep [x] = x"
| "join sep (x # y # ys) = x @ sep @ join sep (y # ys)"

text \<open>\<open>Number.prototype.toString\<close> on a length: the decimal digits of a natural number.\<close>

definition digit_char :: "nat \<Rightarrow> char" where
  "digit_char d = char_of (48 + d)"

fun toString :: "nat \<Rightarrow> string" where
  "toString n = (if n < 10 then [digit_char n] else toString (n div 10) @ [digit_char (n mod 10)])"

declare toString.simps [simp del]

text \<open>\<open>URLSearchParams\<close>: the decoded key/value pairs in order; \<open>get\<close> is the first match.\<close>

type_synonym searchParams = "(string \<times> string) list"

definition get :: "searchParams \<Rightarrow> string \<Rightarrow> string option" where
  "get sp k = map_of sp k"

section \<open>The CSV encoder\<close>

definition dquote :: char where
  "dquote = CHR 0x22"

text \<open>The character class of the test \<open>/["\n\r,]/\<close>.\<close>

definition needs_quoting :: "char \<Rightarrow> bool" where
  "needs_quoting c = (c = dquote \<or> c = CHR 0x0A \<or> c = CHR 0x0D \<or> c = CHR '','')"

text \<open>\<open>str.replace(/"/g, '""')\<close>: every double quote becomes two.\<close>

fun replace_quotes :: "string \<Rightarrow> string" where
  "replace_quotes [] = []"
| "replace_quotes (c # cs) =
     (if c = dquote then dquote # dquote # replace_quotes cs else c # replace_quotes cs)"

fun csvEscape :: "jsval \<Rightarrow> string" where
  "csvEscape JNull = []"
| "csvEscape JUndefined = []"
| "csvEscape (JStr str) =
     (if list_ex needs_quoting str then [dquote] @ replace_quotes str @ [dquote] else str)"

section \<open>The expiry parameter resolver\<close>

definition DEFAULT_EXPIRES_IN_SECONDS :: int where
  "DEFAULT_EXPIRES_IN_SECONDS = 60 * 60 * 24 * 365"

definition MAX_EXPIRES_IN_SECONDS :: int where
  "MAX_EXPIRES_IN_SECONDS = 60 * 60 * 24 * 365"

definition is_digit :: "char \<Rightarrow> bool" where
  "is_digit c = (let n = (of_char c :: nat) in 48 \<le> n \<and> n \<le> 57)"

definition digit_val :: "char \<Rightarrow> int" where
  "digit_val c = of_char c - 48"

definition digits_val :: "string \<Rightarrow> int" where
  "digits_val Z = foldl (\<lambda>a c. 10 * a + digit_val c) 0 Z"

text \<open>
  The Number value of a mathematical integer. A double is finite below
  \<open>2^1024 - 2^970\<close> in magnitude and an infinity from there on (round to nearest, ties
  to even; ECMAScript lets \<open>parseInt\<close> approximate an integer after its 20th digit, which
  can only move this bound in its 20th digit). Below the bound the model keeps the integer
  itself where the double is the nearest representable one: the routes only compare the
  number with 0, multiply it by 24 * 60 * 60 and take the minimum with 31536000, and
  rounding (which is monotone and exact up to \<open>2^53\<close>) changes none of these results.
\<close>

definition DOUBLE_OVERFLOW :: int where
  "DOUBLE_OVERFLOW = 2 ^ 1024 - 2 ^ 970"

definition to_number :: "int \<Rightarrow> jsnum" where
  "to_number v =
     (if DOUBLE_OVERFLOW \<le> v then PosInfinity
      else if v \<le> - DOUBLE_OVERFLOW then NegInfinity
      else Finite v)"

text \<open>
  \<open>Number.parseInt(s, 10)\<close> as ECMAScript defines it: skip leading white space, read one
  optional sign, take the longest run of decimal digits. \<open>int_prefix\<close> is the signed
  mathematical integer so read, \<open>None\<close> when there is no digit (the case that returns
  NaN); \<open>parseInt10\<close> is its Number value.
\<close>

definition int_prefix :: "string \<Rightarrow> int option" where
  "int_prefix s =
     (let S = trimStart s;
          neg = (S \<noteq> [] \<and> hd S = CHR ''-'');
          S' = (if S \<noteq> [] \<and> (hd S = CHR ''+'' \<or> hd S = CHR ''-'') then tl S else S);
          Z = takeWhile is_digit S'
      in if Z = [] then None
         else Some ((if neg then - 1 else 1) * digits_val Z))"

definition parseInt10 :: "string \<Rightarrow> jsnum" where
  "parseInt10 s = (case int_prefix s of None \<Rightarrow> NaN | Some mathInt \<Rightarrow> to_number mathInt)"

text \<open>The first \<open>if\<close> block of \<open>parseExpiresInSeconds\<close>; \<open>Some\<close> is its early return.\<close>

definition seconds_rule :: "searchParams \<Rightarrow> int option" where
  "seconds_rule sp =
     (case get sp ''expiresInSeconds'' of
        None \<Rightarrow> None
      | Some secondsParam \<Rightarrow>
          if secondsParam = [] then None
          else (case parseInt10 secondsParam of
                  Finite parsed \<Rightarrow>
                    if parsed > 0 then Some (min parsed MAX_EXPIRES_IN_SECONDS) else None
                | _ \<Rightarrow> None))"

text \<open>The second \<open>if\<close> block.\<close>

definition days_rule :: "searchParams \<Rightarrow> int option" where
  "days_rule sp =
     (case get sp ''expiresInDays'' of
        None \<Rightarrow> None
      | Some daysParam \<Rightarrow>
          if daysParam = [] then None
          else (case parseInt10 daysParam of
                  Finite parsed \<Rightarrow>
                    if parsed > 0 then Some (min (parsed * 24 * 60 * 60) MAX_EXPIRES_IN_SECONDS)
                    else None
                | _ \<Rightarrow> None))"

definition parseExpiresInSeconds :: "searchParams \<Rightarrow> int" where
  "parseExpiresInSeconds sp =
     (case seconds_rule sp of
        Some r \<Rightarrow> r
      | None \<Rightarrow> (case days_rule sp of Some r \<Rightarrow> r | None \<Rightarrow> DEFAULT_EXPIRES_IN_SECONDS))"

section \<open>The authorization check\<close>

text \<open>The two variables of \<open>process.env\<close> that the routes read; \<open>None\<close> is unset.\<close>

record env =
  NODE_ENV :: "string option"
  CAMPAIGN_EXPORT_SECRET :: "string option"

definition isAuthorized :: "env \<Rightarrow> string option \<Rightarrow> bool" where
  "isAuthorized e secret =
     (if NODE_ENV e = Some ''development'' then True
      else let exportSecret = CAMPAIGN_EXPORT_SECRET e
           in if \<not> truthy exportSecret then False
              else secret = exportSecret)"

section \<open>The backing store, the object store and the response\<close>

text \<open>
  The answer \<open>{ data, error }\<close> of the query: the rows (or null) and the error (or null),
  and of \<open>createSignedUrl\<close>: \<open>signed?.signedUrl\<close> and, when \<open>signError\<close> is not null,
  its message. Both stores are outside the repository, so their answers are parameters
  of the routes: the backing store answers a role, the object store answers the request
  of the row at a given position of the filtered list for a bucket, a key and an expiry.
\<close>

record 'r fetch_result =
  fetch_data :: "'r list option"
  fetch_error :: "string option"

record sign_result =
  signed_signedUrl :: "string option"
  signError_message :: "string option"

type_synonym createSignedUrl = "string \<Rightarrow> string \<Rightarrow> int \<Rightarrow> sign_result"

type_synonym storage = "nat \<Rightarrow> createSignedUrl"

record response =
  status :: nat
  body :: string
  headers :: "(string \<times> string) list"

text \<open>
  A handler either returns a response or throws: the constructor of a response throws a
  TypeError on a header value it refuses, no route catches it, and the framework then
  answers in the handler's place. \<open>status_of\<close> is the status of the response that the
  handler returned, \<open>None\<close> when it threw.
\<close>

datatype error = TypeError

definition status_of :: "error + response \<Rightarrow> nat option" where
  "status_of r = (case r of Inl _ \<Rightarrow> None | Inr res \<Rightarrow> Some (status res))"

text \<open>
  What a request does besides answering: the queries sent to the backing store (table,
  column, value), the signed-URL requests sent to the object store (bucket, key, expiry)
  in the order of the rows, and the lines written with \<open>console.error\<close> (tag, error) and
  \<open>console.warn\<close> (tag, row identifier, message). The last three fields are the local
  variables of the run that the properties speak of: the rows fetched (\<open>candidates\<close> or
  \<open>applications\<close>), \<open>filtered\<close> and \<open>results\<close>, empty when the run returns before
  they are assigned, and kept when the run throws after them. An ExportRow is the object literal that the callback returns: its
  keys in order, each with a string.
\<close>

type_synonym ExportRow = "(string \<times> string) list"

record 'r outcome =
  response :: "error + response"
  db_queries :: "(string \<times> string \<times> string) list"
  store_calls :: "(string \<times> string \<times> int) list"
  console_error :: "(string \<times> string) list"
  console_warn :: "(string \<times> string \<times> string) list"
  fetched :: "'r list"
  filtered :: "'r list"
  results :: "ExportRow list"

text \<open>A response returned before any store is reached.\<close>

definition early :: "response \<Rightarrow> 'r outcome" where
  "early r =
     \<lparr>response = Inr r, db_queries = [], store_calls = [], console_error = [], console_warn = [],
      fetched = [], filtered = [], results = []\<rparr>"

text \<open>\<open>NextResponse.json({ error: msg }, { status: code })\<close>, which touches no store.\<close>

definition json_error :: "nat \<Rightarrow> string \<Rightarrow> response" where
  "json_error code msg =
     \<lparr>status = code,
      body = ''{'' @ [dquote] @ ''error'' @ [dquote] @ '':'' @ [dquote] @ msg @ [dquote] @ ''}'',
      headers = [(''content-type'', ''application/json'')]\<rparr>"

section \<open>The signed URL resolver\<close>

text \<open>
  Lines 102 to 125 of the candidates route (104 to 127 of the campaign route): the
  trimmed file reference, the download URL, the error text, the request sent to the
  object store and the warning written, for one row.
\<close>

record resolution =
  cvKey :: string
  cvDownloadUrl :: string
  cvError :: string
  requested :: "(string \<times> string \<times> int) list"
  warned :: "(string \<times> string \<times> string) list"

definition resolve_cv ::
  "string \<Rightarrow> createSignedUrl \<Rightarrow> string \<Rightarrow> int \<Rightarrow> string \<Rightarrow> string option \<Rightarrow> resolution" where
  "resolve_cv tag createSignedUrl bucket expiresInSeconds row_id file_ref =
     (let cvKey = or_str (map_option trim file_ref) []
      in if cvKey = [] then
           \<lparr>cvKey = cvKey, cvDownloadUrl = [], cvError = [], requested = [], warned = []\<rparr>
         else if startsWith cvKey ''http://'' \<or> startsWith cvKey ''https://'' then
           \<lparr>cvKey = cvKey, cvDownloadUrl = cvKey, cvError = [], requested = [], warned = []\<rparr>
         else
           (let answer = createSignedUrl bucket cvKey expiresInSeconds
            in case signError_message answer of
                 Some message \<Rightarrow>
                   \<lparr>cvKey = cvKey, cvDownloadUrl = [], cvError = message,
                    requested = [(bucket, cvKey, expiresInSeconds)],
                    warned = [(tag, row_id, message)]\<rparr>
               | None \<Rightarrow>
                   \<lparr>cvKey = cvKey, cvDownloadUrl = or_str (signed_signedUrl answer) [], cvError = [],
                    requested = [(bucket, cvKey, expiresInSeconds)], warned = []\<rparr>))"

text \<open>The filter predicate \<open>row.cv_key && row.cv_key.trim() !== ""\<close>.\<close>

definition has_file_ref :: "string option \<Rightarrow> bool" where
  "has_file_ref file_ref = (case file_ref of None \<Rightarrow> False | Some s \<Rightarrow> s \<noteq> [] \<and> trim s \<noteq> [])"

text \<open>\<open>row[header]\<close> is undefined for a key the object does not have.\<close>

definition row_get :: "ExportRow \<Rightarrow> string \<Rightarrow> jsval" where
  "row_get row header = (case map_of row header of None \<Rightarrow> JUndefined | Some v \<Rightarrow> JStr v)"

definition csvLines :: "string list \<Rightarrow> ExportRow list \<Rightarrow> string list" where
  "csvLines hs rows =
     join '','' hs # map (\<lambda>row. join '','' (map (\<lambda>header. csvEscape (row_get row header)) hs)) rows"

text \<open>
  The clock: the UTC fields of the time value of \<open>new Date()\<close>, a year of the common
  era. \<open>toISOString\<close> writes them as \<open>YYYY-MM-DDTHH:mm:ss.sssZ\<close>, the year with a plus
  sign and six digits beyond 9999; \<open>dateStamp\<close> is \<open>toISOString().split("T")[0]\<close>.
\<close>

record utc =
  utc_year :: nat
  utc_month :: nat
  utc_day :: nat
  utc_hours :: nat
  utc_minutes :: nat
  utc_seconds :: nat
  utc_milliseconds :: nat

definition pad :: "nat \<Rightarrow> nat \<Rightarrow> string" where
  "pad w n = replicate (w - length (toString n)) (CHR ''0'') @ toString n"

definition toISOString :: "utc \<Rightarrow> string" where
  "toISOString t =
     (if utc_year t \<le> 9999 then pad 4 (utc_year t) else ''+'' @ pad 6 (utc_year t))
     @ ''-'' @ pad 2 (utc_month t) @ ''-'' @ pad 2 (utc_day t)
     @ ''T'' @ pad 2 (utc_hours t) @ '':'' @ pad 2 (utc_minutes t) @ '':'' @ pad 2 (utc_seconds t)
     @ ''.'' @ pad 3 (utc_milliseconds t) @ ''Z''"

definition dateStamp :: "utc \<Rightarrow> string" where
  "dateStamp now = takeWhile (\<lambda>c. c \<noteq> CHR ''T'') (toISOString now)"

text \<open>
  The parameters that both routes read the same way:
  \<open>searchParams.get("includeMissing") === "true"\<close> and
  \<open>(searchParams.get("bucket") || "candidate-cvs").trim()\<close>.
\<close>

definition param_includeMissing :: "searchParams \<Rightarrow> bool" where
  "param_includeMissing sp = (get sp ''includeMissing'' = Some ''true'')"

definition param_bucket :: "searchParams \<Rightarrow> string" where
  "param_bucket sp = trim (or_str (get sp ''bucket'') ''candidate-cvs'')"

text \<open>
  \<open>new NextResponse(body, { status, headers })\<close>: the constructor of \<open>Response\<close> appends
  each header of the init object to the headers of the response. Appending removes the
  HTTP white space (TAB, LF, CR, SP) at the two ends of the value and throws a TypeError
  when a NUL, an LF or a CR is left in it. (It also throws on a code unit above 255, which
  no string of the model has.) The header names of the routes are constants that are
  accepted.
\<close>

definition http_ws :: "char \<Rightarrow> bool" where
  "http_ws c = (c = CHR 0x09 \<or> c = CHR 0x0A \<or> c = CHR 0x0D \<or> c = CHR 0x20)"

definition normalize_value :: "string \<Rightarrow> string" where
  "normalize_value v = rev (dropWhile http_ws (rev (dropWhile http_ws v)))"

definition forbidden_in_value :: "char \<Rightarrow> bool" where
  "forbidden_in_value c = (c = CHR 0x00 \<or> c = CHR 0x0A \<or> c = CHR 0x0D)"

definition valid_header_value :: "string \<Rightarrow> bool" where
  "valid_header_value v = (\<not> list_ex forbidden_in_value v)"

definition new_NextResponse :: "string \<Rightarrow> nat \<Rightarrow> (string \<times> string) list \<Rightarrow> error + response" where
  "new_NextResponse content code init_headers =
     (let hs = map (\<lambda>(name, v). (name, normalize_value v)) init_headers
      in if list_all (\<lambda>(name, v). valid_header_value v) hs
         then Inr \<lparr>status = code, body = content, headers = hs\<rparr>
         else Inl TypeError)"

text \<open>
  The last statement of both routes, the same but for the name of the total header: the
  200 response, or the TypeError of its constructor.
\<close>

definition csv_response :: "string \<Rightarrow> string \<Rightarrow> string \<Rightarrow> nat \<Rightarrow> nat \<Rightarrow> error + response" where
  "csv_response csvContent filename total_header n_total n_exported =
     new_NextResponse csvContent 200
       [(''Content-Type'', ''text/csv; charset=utf-8''),
        (''Content-Disposition'', ''attachment; filename='' @ [dquote] @ filename @ [dquote]),
        (''Cache-Control'', ''no-store, no-cache, must-revalidate''),
        (total_header, toString n_total),
        (''X-Total-Exported'', toString n_exported)]"

section \<open>The candidates route\<close>

definition DEFAULT_ROLE :: string where
  "DEFAULT_ROLE = ''elektriker''"

record CandidateRow =
  cand_id :: string
  cand_name :: "string option"
  cand_email :: "string option"
  cand_phone :: "string option"
  cand_primary_role :: "string option"
  cand_status :: "string option"
  cand_created_at :: "string option"
  cand_cv_key :: "string option"

text \<open>The callback of \<open>filtered.map\<close>: the object it returns, and what it did to get it.\<close>

definition candidate_task ::
  "createSignedUrl \<Rightarrow> string \<Rightarrow> int \<Rightarrow> string \<Rightarrow> CandidateRow \<Rightarrow> ExportRow \<times> resolution" where
  "candidate_task createSignedUrl bucket expiresInSeconds role candidate =
     (let r = resolve_cv ''[CANDIDATE_CV_EXPORT] Signed URL error:'' createSignedUrl bucket
                expiresInSeconds (cand_id candidate) (cand_cv_key candidate)
      in ([(''candidate_id'', cand_id candidate),
           (''name'', or_str (cand_name candidate) []),
           (''email'', or_str (cand_email candidate) []),
           (''phone'', or_str (cand_phone candidate) []),
           (''role'', or_str (cand_primary_role candidate) role),
           (''status'', or_str (cand_status candidate) []),
           (''created_at'', or_str (cand_created_at candidate) []),
           (''cv_key'', cvKey r),
           (''cv_download_url'', cvDownloadUrl r),
           (''cv_error'', cvError r)], r))"

text \<open>Line 69: \<open>(get("role") || get("position") || DEFAULT_ROLE).trim().toLowerCase()\<close>.\<close>

definition candidates_role :: "searchParams \<Rightarrow> string" where
  "candidates_role sp =
     toLowerCase (trim (or_str (js_or (get sp ''role'') (get sp ''position'')) DEFAULT_ROLE))"

definition candidate_headers :: "string list" where
  "candidate_headers =
     [''candidate_id'', ''name'', ''email'', ''phone'', ''role'', ''status'', ''created_at'',
      ''cv_key'', ''cv_download_url'', ''cv_error'']"

definition GET_candidates ::
  "env \<Rightarrow> (string \<Rightarrow> CandidateRow fetch_result) \<Rightarrow> storage \<Rightarrow> utc \<Rightarrow> searchParams
     \<Rightarrow> CandidateRow outcome" where
  "GET_candidates e db storage now searchParams =
     (let secret = get searchParams ''secret''
      in if \<not> isAuthorized e secret then early (json_error 403 ''Forbidden'')
         else
           (let role = candidates_role searchParams
            in if role = [] then early (json_error 400 ''Missing role'')
               else
                 (let includeMissing = param_includeMissing searchParams;
                      bucket = param_bucket searchParams;
                      expiresInSeconds = parseExpiresInSeconds searchParams;
                      query = (''candidates'', ''primary_role'', role);
                      answer = db role
                  in case fetch_error answer of
                       Some err \<Rightarrow>
                         \<lparr>response = Inr (json_error 500 ''Kunne ikke hente kandidater''),
                          db_queries = [query], store_calls = [],
                          console_error =
                            [(''[CANDIDATE_CV_EXPORT] Failed to fetch candidates:'', err)],
                          console_warn = [], fetched = [], filtered = [], results = []\<rparr>
                     | None \<Rightarrow>
                         (let candidates = (case fetch_data answer of None \<Rightarrow> [] | Some rows \<Rightarrow> rows);
                              filtered = (if includeMissing then candidates
                                else filter (\<lambda>candidate. has_file_ref (cand_cv_key candidate))
                                       candidates);
                              tasks = map (\<lambda>(i, candidate).
                                  candidate_task (storage i) bucket expiresInSeconds role candidate)
                                (enumerate 0 filtered);
                              results = map fst tasks;
                              csvContent = join [CHR 0x0A] (csvLines candidate_headers results);
                              filename = ''candidates-'' @ role @ ''-cvs-'' @ dateStamp now @ ''.csv''
                          in \<lparr>response = csv_response csvContent filename ''X-Total-Candidates''
                                (length candidates) (length results),
                              db_queries = [query],
                              store_calls = concat (map (\<lambda>t. requested (snd t)) tasks),
                              console_error = [],
                              console_warn = concat (map (\<lambda>t. warned (snd t)) tasks),
                              fetched = candidates, filtered = filtered, results = results\<rparr>))))"

section \<open>The campaign applications route\<close>

definition DEFAULT_POSITION :: string where
  "DEFAULT_POSITION = ''elektriker''"

record CampaignApplicationRow =
  app_id :: string
  app_name :: "string option"
  app_email :: "string option"
  app_phone :: "string option"
  app_position :: "string option"
  app_segment :: "string option"
  app_status :: "string option"
  app_created_at :: "string option"
  app_cv_url :: "string option"
  app_cv_filename :: "string option"

definition application_task ::
  "createSignedUrl \<Rightarrow> string \<Rightarrow> int \<Rightarrow> string \<Rightarrow> CampaignApplicationRow
     \<Rightarrow> ExportRow \<times> resolution" where
  "application_task createSignedUrl bucket expiresInSeconds position application =
     (let r = resolve_cv ''[CAMPAIGN_CV_EXPORT] Signed URL error:'' createSignedUrl bucket
                expiresInSeconds (app_id application) (app_cv_url application)
      in ([(''application_id'', app_id application),
           (''name'', or_str (app_name application) []),
           (''email'', or_str (app_email application) []),
           (''phone'', or_str (app_phone application) []),
           (''position'', or_str (app_position application) position),
           (''segment'', or_str (app_segment application) []),
           (''status'', or_str (app_status application) []),
           (''created_at'', or_str (app_created_at application) []),
           (''cv_key'', cvKey r),
           (''cv_filename'', or_str (app_cv_filename application) []),
           (''cv_download_url'', cvDownloadUrl r),
           (''cv_error'', cvError r)], r))"

text \<open>Line 71: \<open>(get("position") || DEFAULT_POSITION).trim().toLowerCase()\<close>.\<close>

definition campaign_position :: "searchParams \<Rightarrow> string" where
  "campaign_position sp = toLowerCase (trim (or_str (get sp ''position'') DEFAULT_POSITION))"

definition application_headers :: "string list" where
  "application_headers =
     [''application_id'', ''name'', ''email'', ''phone'', ''position'', ''segment'', ''status'',
      ''created_at'', ''cv_key'', ''cv_filename'', ''cv_download_url'', ''cv_error'']"

definition GET_campaign ::
  "env \<Rightarrow> (string \<Rightarrow> CampaignApplicationRow fetch_result) \<Rightarrow> storage \<Rightarrow> utc \<Rightarrow> searchParams
     \<Rightarrow> CampaignApplicationRow outcome" where
  "GET_campaign e db storage now searchParams =
     (let secret = get searchParams ''secret''
      in if \<not> isAuthorized e secret then early (json_error 403 ''Forbidden'')
         else
           (let position = campaign_position searchParams
            in if position = [] then early (json_error 400 ''Missing position'')
               else
                 (let includeMissing = param_includeMissing searchParams;
                      bucket = param_bucket searchParams;
                      expiresInSeconds = parseExpiresInSeconds searchParams;
                      query = (''campaign_applications'', ''position'', position);
                      answer = db position
                  in case fetch_error answer of
                       Some err \<Rightarrow>
                         \<lparr>response = Inr (json_error 500 ''Kunne ikke hente kampanjesoknader''),
                          db_queries = [query], store_calls = [],
                          console_error =
                            [(''[CAMPAIGN_CV_EXPORT] Failed to fetch applications:'', err)],
                          console_warn = [], fetched = [], filtered = [], results = []\<rparr>
                     | None \<Rightarrow>
                         (let applications = (case fetch_data answer of None \<Rightarrow> [] | Some rows \<Rightarrow> rows);
                              filtered = (if includeMissing then applications
                                else filter (\<lambda>app. has_file_ref (app_cv_url app)) applications);
                              tasks = map (\<lambda>(i, application).
                                  application_task (storage i) bucket expiresInSeconds position
                                    application)
                                (enumerate 0 filtered);
                              results = map fst tasks;
                              csvContent = join [CHR 0x0A] (csvLines application_headers results);
                              filename = ''campaign-'' @ position @ ''-cvs-'' @ dateStamp now @ ''.csv''
                          in \<lparr>response = csv_response csvContent filename ''X-Total-Applications''
                                (length applications) (length results),
                              db_queries = [query],
                              store_calls = concat (map (\<lambda>t. requested (snd t)) tasks),
                              console_error = [],
                              console_warn = concat (map (\<lambda>t. warned (snd t)) tasks),
                              fetched = applications, filtered = filtered, results = results\<rparr>))))"

section \<open>Blank references and CSV records\<close>

text \<open>
  The two notions by which the properties are stated, which are not functions of the
  routes. A file reference is blank when it is null, empty or white space only. A CSV
  text is read as RFC 4180 has it: a double quote opens or closes a quoted field, and a
  line feed outside a quoted field ends a record, so a text that does not end in a line
  feed has one record more than it has such line feeds.
\<close>

definition blank_ref :: "string option \<Rightarrow> bool" where
  "blank_ref file_ref = (case file_ref of None \<Rightarrow> True | Some s \<Rightarrow> list_all is_ws s)"




section \<open>Example requests\<close>

text \<open>
  A development environment, a clock, and for each route a store holding one row with the
  file \<open>abc.pdf\<close>, one row with an empty file reference and one row with the file
  \<open>def.pdf\<close>. \<open>ok_store\<close> signs every key; \<open>flaky_store\<close> fails on the request of
  the first retained row and signs the others.
\<close>

definition dev_env :: env where
  "dev_env = \<lparr>NODE_ENV = Some ''development'', CAMPAIGN_EXPORT_SECRET = None\<rparr>"

definition clock :: utc where
  "clock = \<lparr>utc_year = 2026, utc_month = 1, utc_day = 2, utc_hours = 3, utc_minutes = 4,
     utc_seconds = 5, utc_milliseconds = 0\<rparr>"

definition cand_A :: CandidateRow where
  "cand_A = \<lparr>cand_id = ''c1'', cand_name = Some ''Ola Nordmann'', cand_email = Some ''ola@example.no'',
     cand_phone = None, cand_primary_role = Some ''elektriker'', cand_status = Some ''new'',
     cand_created_at = Some ''2026-01-01'', cand_cv_key = Some ''abc.pdf''\<rparr>"

definition cand_B :: CandidateRow where
  "cand_B = \<lparr>cand_id = ''c2'', cand_name = Some ''Kari Nordmann'', cand_email = None,
     cand_phone = None, cand_primary_role = None, cand_status = None,
     cand_created_at = None, cand_cv_key = Some []\<rparr>"


definition cand_db :: "string \<Rightarrow> CandidateRow fetch_result" where
  "cand_db role = \<lparr>fetch_data = Some [cand_A, cand_B], fetch_error = None\<rparr>"


definition app_A :: CampaignApplicationRow where
  "app_A = \<lparr>app_id = ''a1'', app_name = Some ''Ola Nordmann'', app_email = Some ''ola@example.no'',
     app_phone = None, app_position = Some ''elektriker'', app_segment = Some ''offshore'',
     app_status = Some ''new'', app_created_at = Some ''2026-01-01'', app_cv_url = Some ''abc.pdf'',
     app_cv_filename = Some ''cv.pdf''\<rparr>"

definition app_B :: CampaignApplicationRow where
  "app_B = \<lparr>app_id = ''a2'', app_name = Some ''Kari Nordmann'', app_email = None,
     app_phone = None, app_position = None, app_segment = None,
     app_status = None, app_created_at = None, app_cv_url = Some [],
     app_cv_filename = None\<rparr>"


definition app_db :: "string \<Rightarrow> CampaignApplicationRow fetch_result" where
  "app_db position = \<lparr>fetch_data = Some [app_A, app_B], fetch_error = None\<rparr>"


text \<open>A row of each kind whose file reference is an absolute URL followed by a space.\<close>

definition cand_D :: CandidateRow where
  "cand_D = \<lparr>cand_id = ''c4'', cand_name = None, cand_email = None,
     cand_phone = None, cand_primary_role = None, cand_status = None,
     cand_created_at = None, cand_cv_key = Some ''https://host/file.pdf ''\<rparr>"

definition cand_db_url :: "string \<Rightarrow> CandidateRow fetch_result" where
  "cand_db_url role = \<lparr>fetch_data = Some [cand_D, cand_B], fetch_error = None\<rparr>"

definition app_D :: CampaignApplicationRow where
  "app_D = \<lparr>app_id = ''a4'', app_name = None, app_email = None,
     app_phone = None, app_position = None, app_segment = None,
     app_status = None, app_created_at = None, app_cv_url = Some ''https://host/file.pdf '',
     app_cv_filename = None\<rparr>"

definition app_db_url :: "string \<Rightarrow> CampaignApplicationRow fetch_result" where
  "app_db_url position = \<lparr>fetch_data = Some [app_D, app_B], fetch_error = None\<rparr>"








definition ok_store :: storage where
  "ok_store i bucket key expiry =
     \<lparr>signed_signedUrl = Some (''https://signed/'' @ key), signError_message = None\<rparr>"


section \<open>The CSV encoder: properties\<close>

lemma replace_quotes_concat:
  "replace_quotes s = concat (map (\<lambda>c. if c = dquote then [dquote, dquote] else [c]) s)"
  by (induction s) simp_all

text \<open>
  C5. The CSV encoder gives the empty string for null and for undefined; a string that
  holds a double quote, a comma, a carriage return or a newline comes back between two
  double quotes with each of its own double quotes written twice; a string holding none
  of these four characters comes back unchanged.
\<close>

theorem csvEscape_contract:
  "csvEscape JNull = [] \<and> csvEscape JUndefined = [] \<and>
   (\<forall>s. (\<exists>c \<in> set s. c = CHR 0x22 \<or> c = CHR '','' \<or> c = CHR 0x0D \<or> c = CHR 0x0A) \<longrightarrow>
        csvEscape (JStr s) =
          [CHR 0x22] @ concat (map (\<lambda>c. if c = CHR 0x22 then [CHR 0x22, CHR 0x22] else [c]) s)
            @ [CHR 0x22]) \<and>
   (\<forall>s. \<not> (\<exists>c \<in> set s. c = CHR 0x22 \<or> c = CHR '','' \<or> c = CHR 0x0D \<or> c = CHR 0x0A) \<longrightarrow>
        csvEscape (JStr s) = s)"
  unfolding csvEscape.simps replace_quotes_concat list_ex_iff needs_quoting_def dquote_def
  by auto

theorem csvEscape_contract_witness:
  "csvEscape (JStr ''a,b'') = [CHR 0x22] @ ''a,b'' @ [CHR 0x22] \<and>
   csvEscape (JStr [CHR ''a'', CHR 0x22, CHR ''b'']) =
     [CHR 0x22, CHR ''a'', CHR 0x22, CHR 0x22, CHR ''b'', CHR 0x22] \<and>
   csvEscape (JStr ''ab'') = ''ab''"
proof -
  note c = csvEscape_contract [THEN conjunct2, THEN conjunct2]
  have 1: "csvEscape (JStr ''a,b'') = [CHR 0x22] @ ''a,b'' @ [CHR 0x22]"
    using c [THEN conjunct1, rule_format, of "''a,b''"] by simp
  have 2: "csvEscape (JStr [CHR ''a'', CHR 0x22, CHR ''b'']) =
     [CHR 0x22, CHR ''a'', CHR 0x22, CHR 0x22, CHR ''b'', CHR 0x22]"
    using c [THEN conjunct1, rule_format, of "[CHR ''a'', CHR 0x22, CHR ''b'']"] by simp
  have 3: "csvEscape (JStr ''ab'') = ''ab''"
    using c [THEN conjunct2, rule_format, of "''ab''"] by simp
  from 1 2 3 show ?thesis by blast
qed

section \<open>The expiry parameter resolver: properties\<close>

lemma int_prefix_Nil: "int_prefix [] = None"
  by (simp add: int_prefix_def trimStart_def)

lemma digit_not_ws: "is_digit c \<Longrightarrow> \<not> is_ws c"
  by (auto simp: is_digit_def is_ws_def)

lemma digit_not_sign: "is_digit c \<Longrightarrow> c \<noteq> CHR ''+'' \<and> c \<noteq> CHR ''-''"
  by (auto simp: is_digit_def)

lemma takeWhile_digits:
  "\<forall>c \<in> set ds. is_digit c \<Longrightarrow> rest = [] \<or> \<not> is_digit (hd rest) \<Longrightarrow>
   takeWhile is_digit (ds @ rest) = ds"
  by (cases rest) (auto simp: takeWhile_append2)

lemma int_prefix_digits:
  assumes "ds \<noteq> []" and "\<forall>c \<in> set ds. is_digit c" and "rest = [] \<or> \<not> is_digit (hd rest)"
  shows "int_prefix (ds @ rest) = Some (digits_val ds)"
proof -
  obtain d ds' where ds: "ds = d # ds'" using assms(1) by (cases ds) auto
  with assms(2) have d: "is_digit d" by simp
  have "trimStart (ds @ rest) = ds @ rest"
    by (simp add: trimStart_def ds digit_not_ws [OF d])
  moreover have "hd (ds @ rest) = d" by (simp add: ds)
  ultimately show ?thesis
    using digit_not_sign [OF d] takeWhile_digits [OF assms(2,3)] assms(1)
    by (simp add: int_prefix_def Let_def)
qed

lemma parseInt10_Finite:
  "parseInt10 s = Finite v \<longleftrightarrow> int_prefix s = Some v \<and> - DOUBLE_OVERFLOW < v \<and> v < DOUBLE_OVERFLOW"
  by (auto simp: parseInt10_def to_number_def split: option.splits if_splits)

lemma overflow_pos: "0 < DOUBLE_OVERFLOW"
  by (simp add: DOUBLE_OVERFLOW_def)

lemma seconds_rule_Some:
  "seconds_rule sp = Some r \<longleftrightarrow>
     (\<exists>s v. get sp ''expiresInSeconds'' = Some s \<and> parseInt10 s = Finite v \<and> 0 < v \<and>
        r = min v MAX_EXPIRES_IN_SECONDS)"
  by (auto simp: seconds_rule_def parseInt10_def int_prefix_Nil split: option.splits jsnum.splits)

lemma days_rule_Some:
  "days_rule sp = Some r \<longleftrightarrow>
     (\<exists>s v. get sp ''expiresInDays'' = Some s \<and> parseInt10 s = Finite v \<and> 0 < v \<and>
        r = min (v * 24 * 60 * 60) MAX_EXPIRES_IN_SECONDS)"
  by (auto simp: days_rule_def parseInt10_def int_prefix_Nil split: option.splits jsnum.splits)

lemma seconds_rule_None:
  "seconds_rule sp = None \<longleftrightarrow>
     \<not> (\<exists>s v. get sp ''expiresInSeconds'' = Some s \<and> parseInt10 s = Finite v \<and> 0 < v)"
  by (auto simp: seconds_rule_def parseInt10_def int_prefix_Nil split: option.splits jsnum.splits)

lemma days_rule_None:
  "days_rule sp = None \<longleftrightarrow>
     \<not> (\<exists>s v. get sp ''expiresInDays'' = Some s \<and> parseInt10 s = Finite v \<and> 0 < v)"
  by (auto simp: days_rule_def parseInt10_def int_prefix_Nil split: option.splits jsnum.splits)

text \<open>
  C2. With \<open>s\<close> the \<open>expiresInSeconds\<close> parameter and \<open>d\<close> the \<open>expiresInDays\<close>
  parameter, each optional: when \<open>s\<close> parses to a finite integer above 0 the expiry is that
  integer capped at 31536000; otherwise (\<open>s\<close> absent, not numeric, zero or negative), when
  \<open>d\<close> parses to a finite integer above 0 the expiry is that integer times 86400 capped at
  31536000; otherwise it is 31536000. The expiry is always positive and at most 31536000.
\<close>

theorem parseExpiresInSeconds_resolution:
  "(\<forall>s v. get sp ''expiresInSeconds'' = Some s \<and> parseInt10 s = Finite v \<and> 0 < v \<longrightarrow>
      parseExpiresInSeconds sp = min v 31536000) \<and>
   (\<not> (\<exists>s v. get sp ''expiresInSeconds'' = Some s \<and> parseInt10 s = Finite v \<and> 0 < v) \<longrightarrow>
      (\<forall>d n. get sp ''expiresInDays'' = Some d \<and> parseInt10 d = Finite n \<and> 0 < n \<longrightarrow>
         parseExpiresInSeconds sp = min (n * 86400) 31536000) \<and>
      (\<not> (\<exists>d n. get sp ''expiresInDays'' = Some d \<and> parseInt10 d = Finite n \<and> 0 < n) \<longrightarrow>
         parseExpiresInSeconds sp = 31536000)) \<and>
   0 < parseExpiresInSeconds sp \<and> parseExpiresInSeconds sp \<le> 31536000"
proof -
  have max: "MAX_EXPIRES_IN_SECONDS = 31536000" and dflt: "DEFAULT_EXPIRES_IN_SECONDS = 31536000"
    by (simp_all add: MAX_EXPIRES_IN_SECONDS_def DEFAULT_EXPIRES_IN_SECONDS_def)
  show ?thesis
  proof (cases "seconds_rule sp")
    case (Some r)
    then obtain s v where sv: "get sp ''expiresInSeconds'' = Some s" "parseInt10 s = Finite v"
      "0 < v" "r = min v 31536000"
      unfolding seconds_rule_Some max by blast
    have "parseExpiresInSeconds sp = r"
      by (simp add: parseExpiresInSeconds_def Some)
    with sv show ?thesis by auto
  next
    case None
    note sec = this
    have nosec: "\<not> (\<exists>s v. get sp ''expiresInSeconds'' = Some s \<and> parseInt10 s = Finite v \<and> 0 < v)"
      using sec seconds_rule_None [of sp] by blast
    show ?thesis
    proof (cases "days_rule sp")
      case (Some r)
      then obtain d n where dn: "get sp ''expiresInDays'' = Some d" "parseInt10 d = Finite n"
        "0 < n" "r = min (n * 24 * 60 * 60) 31536000"
        unfolding days_rule_Some max by blast
      have "parseExpiresInSeconds sp = r"
        by (simp add: parseExpiresInSeconds_def sec Some)
      with dn nosec show ?thesis by auto
    next
      case None
      have nodays: "\<not> (\<exists>d n. get sp ''expiresInDays'' = Some d \<and> parseInt10 d = Finite n \<and> 0 < n)"
        using None days_rule_None [of sp] by blast
      have "parseExpiresInSeconds sp = 31536000"
        by (simp add: parseExpiresInSeconds_def sec None dflt)
      with nosec nodays show ?thesis by auto
    qed
  qed
qed

text \<open>The examples of the specification, each from the theorem.\<close>

theorem parseExpiresInSeconds_resolution_witness:
  "parseExpiresInSeconds [(''expiresInSeconds'', ''100'')] = 100 \<and>
   parseExpiresInSeconds [(''expiresInSeconds'', ''999999999999'')] = 31536000 \<and>
   parseExpiresInSeconds [(''expiresInDays'', ''2'')] = 172800 \<and>
   parseExpiresInSeconds [] = 31536000 \<and>
   parseExpiresInSeconds [(''expiresInSeconds'', ''-5''), (''expiresInDays'', ''3'')] = 259200"
proof -
  let ?a = "[(''expiresInSeconds'', ''100'')]"
  let ?b = "[(''expiresInSeconds'', ''999999999999'')]"
  let ?c = "[(''expiresInDays'', ''2'')]"
  let ?e = "[(''expiresInSeconds'', ''-5''), (''expiresInDays'', ''3'')]"
  have ha: "get ?a ''expiresInSeconds'' = Some ''100'' \<and> parseInt10 ''100'' = Finite 100 \<and> (0::int) < 100"
    by code_simp
  have ra: "parseExpiresInSeconds ?a = 100"
    using parseExpiresInSeconds_resolution [of ?a, THEN conjunct1, rule_format, OF ha] by simp
  have hb: "get ?b ''expiresInSeconds'' = Some ''999999999999'' \<and>
      parseInt10 ''999999999999'' = Finite 999999999999 \<and> (0::int) < 999999999999"
    by code_simp
  have rb: "parseExpiresInSeconds ?b = 31536000"
    using parseExpiresInSeconds_resolution [of ?b, THEN conjunct1, rule_format, OF hb] by simp
  have nc: "\<not> (\<exists>s v. get ?c ''expiresInSeconds'' = Some s \<and> parseInt10 s = Finite v \<and> 0 < v)"
    by (simp add: get_def)
  have hc: "get ?c ''expiresInDays'' = Some ''2'' \<and> parseInt10 ''2'' = Finite 2 \<and> (0::int) < 2"
    by code_simp
  have rc: "parseExpiresInSeconds ?c = 172800"
    using parseExpiresInSeconds_resolution [of ?c, THEN conjunct2, THEN conjunct1, rule_format,
        OF nc, THEN conjunct1, rule_format, OF hc] by simp
  have nd: "\<not> (\<exists>s v. get [] ''expiresInSeconds'' = Some s \<and> parseInt10 s = Finite v \<and> 0 < v)"
    and nd': "\<not> (\<exists>d n. get [] ''expiresInDays'' = Some d \<and> parseInt10 d = Finite n \<and> 0 < n)"
    by (simp_all add: get_def)
  have rd: "parseExpiresInSeconds [] = 31536000"
    using parseExpiresInSeconds_resolution [of "[]", THEN conjunct2, THEN conjunct1, rule_format,
        OF nd, THEN conjunct2, rule_format, OF nd'] by simp
  have p5: "parseInt10 ''-5'' = Finite (- 5)"
    by code_simp
  have ne: "\<not> (\<exists>s v. get ?e ''expiresInSeconds'' = Some s \<and> parseInt10 s = Finite v \<and> 0 < v)"
    by (simp add: get_def p5)
  have he: "get ?e ''expiresInDays'' = Some ''3'' \<and> parseInt10 ''3'' = Finite 3 \<and> (0::int) < 3"
    by code_simp
  have re: "parseExpiresInSeconds ?e = 259200"
    using parseExpiresInSeconds_resolution [of ?e, THEN conjunct2, THEN conjunct1, rule_format,
        OF ne, THEN conjunct1, rule_format, OF he] by simp
  from ra rb rc rd re show ?thesis by blast
qed

text \<open>
  C9, as stated, fails: a parameter whose leading digits form a positive integer is not
  always accepted. An integer prefix of 401 digits parses to Infinity, which
  \<open>Number.isFinite\<close> rejects, so with \<open>expiresInDays=1\<close> beside it the expiry is 86400 and
  not the capped prefix 31536000.
\<close>

theorem parseInt_prefix_counterexample:
  "takeWhile is_digit (CHR ''1'' # replicate 400 (CHR ''0'') @ ''abc'') =
     CHR ''1'' # replicate 400 (CHR ''0'') \<and>
   0 < digits_val (CHR ''1'' # replicate 400 (CHR ''0'')) \<and>
   min (digits_val (CHR ''1'' # replicate 400 (CHR ''0''))) 31536000 = 31536000 \<and>
   parseExpiresInSeconds
     [(''expiresInSeconds'', CHR ''1'' # replicate 400 (CHR ''0'') @ ''abc''),
      (''expiresInDays'', ''1'')] = 86400"
  by code_simp

text \<open>
  C9, amended. A parameter string made of decimal digits that form a positive integer
  below \<open>2^1024 - 2^970\<close> (the integers that parse to a finite number), followed by
  nothing or by text that starts with a non-digit, is accepted with its integer prefix:
  as \<open>expiresInSeconds\<close> the expiry is the prefix capped at 31536000, and as
  \<open>expiresInDays\<close>, once the seconds rule has fallen through, it is the prefix times
  86400 with the same cap. A parameter falls through to the next rule only when it has no
  leading integer (after optional white space and one sign), or when that integer is zero
  or negative, or when it is \<open>2^1024 - 2^970\<close> or more.
\<close>

theorem parseInt_prefix_resolution:
  "(\<forall>ds rest. ds \<noteq> [] \<and> (\<forall>c \<in> set ds. is_digit c) \<and> (rest = [] \<or> \<not> is_digit (hd rest)) \<and>
       0 < digits_val ds \<and> digits_val ds < DOUBLE_OVERFLOW \<longrightarrow>
       (get sp ''expiresInSeconds'' = Some (ds @ rest) \<longrightarrow>
          parseExpiresInSeconds sp = min (digits_val ds) 31536000) \<and>
       (seconds_rule sp = None \<and> get sp ''expiresInDays'' = Some (ds @ rest) \<longrightarrow>
          parseExpiresInSeconds sp = min (digits_val ds * 86400) 31536000)) \<and>
   (\<forall>s. get sp ''expiresInSeconds'' = Some s \<and> seconds_rule sp = None \<longrightarrow>
       int_prefix s = None \<or> (\<exists>v. int_prefix s = Some v \<and> (v \<le> 0 \<or> DOUBLE_OVERFLOW \<le> v))) \<and>
   (\<forall>s. get sp ''expiresInDays'' = Some s \<and> days_rule sp = None \<longrightarrow>
       int_prefix s = None \<or> (\<exists>v. int_prefix s = Some v \<and> (v \<le> 0 \<or> DOUBLE_OVERFLOW \<le> v)))"
proof (intro conjI allI impI)
  fix ds rest
  assume a: "ds \<noteq> [] \<and> (\<forall>c \<in> set ds. is_digit c) \<and> (rest = [] \<or> \<not> is_digit (hd rest)) \<and>
       0 < digits_val ds \<and> digits_val ds < DOUBLE_OVERFLOW"
  then have ip: "int_prefix (ds @ rest) = Some (digits_val ds)"
    using int_prefix_digits by blast
  with a have fin: "parseInt10 (ds @ rest) = Finite (digits_val ds)"
    by (simp add: parseInt10_Finite)
  {
    assume g: "get sp ''expiresInSeconds'' = Some (ds @ rest)"
    then have "seconds_rule sp = Some (min (digits_val ds) MAX_EXPIRES_IN_SECONDS)"
      unfolding seconds_rule_Some using fin a by blast
    then show "parseExpiresInSeconds sp = min (digits_val ds) 31536000"
      by (simp add: parseExpiresInSeconds_def MAX_EXPIRES_IN_SECONDS_def)
  }
  {
    assume g: "seconds_rule sp = None \<and> get sp ''expiresInDays'' = Some (ds @ rest)"
    then have "days_rule sp = Some (min (digits_val ds * 24 * 60 * 60) MAX_EXPIRES_IN_SECONDS)"
      unfolding days_rule_Some using fin a by blast
    with g show "parseExpiresInSeconds sp = min (digits_val ds * 86400) 31536000"
      by (simp add: parseExpiresInSeconds_def MAX_EXPIRES_IN_SECONDS_def)
  }
next
  fix s
  assume "get sp ''expiresInSeconds'' = Some s \<and> seconds_rule sp = None"
  then have "\<forall>v. parseInt10 s = Finite v \<longrightarrow> \<not> 0 < v"
    unfolding seconds_rule_None by blast
  then show "int_prefix s = None \<or> (\<exists>v. int_prefix s = Some v \<and> (v \<le> 0 \<or> DOUBLE_OVERFLOW \<le> v))"
    unfolding parseInt10_Finite using overflow_pos by (cases "int_prefix s") force+
next
  fix s
  assume "get sp ''expiresInDays'' = Some s \<and> days_rule sp = None"
  then have "\<forall>v. parseInt10 s = Finite v \<longrightarrow> \<not> 0 < v"
    unfolding days_rule_None by blast
  then show "int_prefix s = None \<or> (\<exists>v. int_prefix s = Some v \<and> (v \<le> 0 \<or> DOUBLE_OVERFLOW \<le> v))"
    unfolding parseInt10_Finite using overflow_pos by (cases "int_prefix s") force+
qed

theorem parseInt_prefix_resolution_witness:
  "parseExpiresInSeconds [(''expiresInSeconds'', ''100.5'')] = 100 \<and>
   parseExpiresInSeconds [(''expiresInSeconds'', ''0''), (''expiresInDays'', ''2abc'')] = 172800 \<and>
   (\<exists>v. int_prefix ''0'' = Some v \<and> (v \<le> 0 \<or> DOUBLE_OVERFLOW \<le> v)) \<and>
   int_prefix ''abc'' = None"
proof -
  let ?sp1 = "[(''expiresInSeconds'', ''100.5'')]"
  let ?sp2 = "[(''expiresInSeconds'', ''0''), (''expiresInDays'', ''2abc'')]"
  let ?sp3 = "[(''expiresInSeconds'', ''7''), (''expiresInDays'', ''abc'')]"
  have h1: "''100'' \<noteq> [] \<and> (\<forall>c \<in> set ''100''. is_digit c) \<and> (''.5'' = [] \<or> \<not> is_digit (hd ''.5'')) \<and>
       0 < digits_val ''100'' \<and> digits_val ''100'' < DOUBLE_OVERFLOW"
    by (simp add: is_digit_def digits_val_def digit_val_def DOUBLE_OVERFLOW_def)
  have g1: "get ?sp1 ''expiresInSeconds'' = Some (''100'' @ ''.5'')"
    by (simp add: get_def)
  have r1: "parseExpiresInSeconds ?sp1 = 100"
    using parseInt_prefix_resolution [of ?sp1, THEN conjunct1, rule_format, OF h1, THEN conjunct1,
        rule_format, OF g1]
    by (simp add: digits_val_def digit_val_def)
  have h2: "''2'' \<noteq> [] \<and> (\<forall>c \<in> set ''2''. is_digit c) \<and> (''abc'' = [] \<or> \<not> is_digit (hd ''abc'')) \<and>
       0 < digits_val ''2'' \<and> digits_val ''2'' < DOUBLE_OVERFLOW"
    by (simp add: is_digit_def digits_val_def digit_val_def DOUBLE_OVERFLOW_def)
  have s2: "get ?sp2 ''expiresInSeconds'' = Some ''0'' \<and> seconds_rule ?sp2 = None"
    by code_simp
  have g2: "seconds_rule ?sp2 = None \<and> get ?sp2 ''expiresInDays'' = Some (''2'' @ ''abc'')"
    by code_simp
  have r2: "parseExpiresInSeconds ?sp2 = 172800"
    using parseInt_prefix_resolution [of ?sp2, THEN conjunct1, rule_format, OF h2, THEN conjunct2,
        rule_format, OF g2]
    by (simp add: digits_val_def digit_val_def)
  have e3: "int_prefix ''0'' = Some 0"
    by code_simp
  have r3: "\<exists>v. int_prefix ''0'' = Some v \<and> (v \<le> 0 \<or> DOUBLE_OVERFLOW \<le> v)"
    using parseInt_prefix_resolution [of ?sp2, THEN conjunct2, THEN conjunct1, rule_format, OF s2]
    by (simp add: e3)
  have s3: "get ?sp3 ''expiresInDays'' = Some ''abc'' \<and> days_rule ?sp3 = None"
    by code_simp
  have e4: "int_prefix ''abc'' = None"
    by code_simp
  have r4: "int_prefix ''abc'' = None"
    using parseInt_prefix_resolution [of ?sp3, THEN conjunct2, THEN conjunct2, rule_format, OF s3]
    by (simp add: e4)
  from r1 r2 r3 r4 show ?thesis by blast
qed

section \<open>The authorization check: properties\<close>

text \<open>
  C6. For every supplied secret, absent or not: in development mode the check answers
  authorized; outside development mode with no configured secret (the variable unset or
  empty) it answers unauthorized; outside development mode with a configured secret it
  answers authorized exactly when the supplied secret is that very string.
\<close>

theorem isAuthorized_contract:
  "(NODE_ENV e = Some ''development'' \<longrightarrow> isAuthorized e secret) \<and>
   (NODE_ENV e \<noteq> Some ''development'' \<and>
      (CAMPAIGN_EXPORT_SECRET e = None \<or> CAMPAIGN_EXPORT_SECRET e = Some []) \<longrightarrow>
        \<not> isAuthorized e secret) \<and>
   (\<forall>x. NODE_ENV e \<noteq> Some ''development'' \<and> CAMPAIGN_EXPORT_SECRET e = Some x \<and> x \<noteq> [] \<longrightarrow>
        (isAuthorized e secret \<longleftrightarrow> secret = Some x))"
  by (auto simp: isAuthorized_def truthy_def Let_def)

theorem isAuthorized_contract_witness:
  "isAuthorized \<lparr>NODE_ENV = Some ''development'', CAMPAIGN_EXPORT_SECRET = None\<rparr> None \<and>
   \<not> isAuthorized \<lparr>NODE_ENV = Some ''production'', CAMPAIGN_EXPORT_SECRET = None\<rparr> (Some ''abc'') \<and>
   isAuthorized \<lparr>NODE_ENV = Some ''production'', CAMPAIGN_EXPORT_SECRET = Some ''abc''\<rparr> (Some ''abc'') \<and>
   \<not> isAuthorized \<lparr>NODE_ENV = Some ''production'', CAMPAIGN_EXPORT_SECRET = Some ''abc''\<rparr> (Some ''ABC'') \<and>
   \<not> isAuthorized \<lparr>NODE_ENV = Some ''production'', CAMPAIGN_EXPORT_SECRET = Some ''abc''\<rparr> None"
proof -
  let ?dev = "\<lparr>NODE_ENV = Some ''development'', CAMPAIGN_EXPORT_SECRET = None\<rparr>"
  let ?bare = "\<lparr>NODE_ENV = Some ''production'', CAMPAIGN_EXPORT_SECRET = None\<rparr>"
  let ?prod = "\<lparr>NODE_ENV = Some ''production'', CAMPAIGN_EXPORT_SECRET = Some ''abc''\<rparr>"
  have 1: "isAuthorized ?dev None"
    using isAuthorized_contract [of ?dev None, THEN conjunct1] by simp
  have 2: "\<not> isAuthorized ?bare (Some ''abc'')"
    using isAuthorized_contract [of ?bare "Some ''abc''", THEN conjunct2, THEN conjunct1] by simp
  have h: "NODE_ENV ?prod \<noteq> Some ''development'' \<and> CAMPAIGN_EXPORT_SECRET ?prod = Some ''abc'' \<and>
      ''abc'' \<noteq> []"
    by simp
  have 3: "isAuthorized ?prod (Some ''abc'')"
    using isAuthorized_contract [of ?prod "Some ''abc''", THEN conjunct2, THEN conjunct2,
        rule_format, OF h] by simp
  have 4: "\<not> isAuthorized ?prod (Some ''ABC'')"
    using isAuthorized_contract [of ?prod "Some ''ABC''", THEN conjunct2, THEN conjunct2,
        rule_format, OF h] by simp
  have 5: "\<not> isAuthorized ?prod None"
    using isAuthorized_contract [of ?prod None, THEN conjunct2, THEN conjunct2,
        rule_format, OF h] by simp
  from 1 2 3 4 5 show ?thesis by blast
qed

section \<open>The response constructor\<close>

text \<open>The count headers are decimal numerals: \<open>toString\<close> writes the digits of its argument.\<close>

lemma digit_char_value: "d < 10 \<Longrightarrow> is_digit (digit_char d) \<and> digit_val (digit_char d) = int d"
proof -
  assume d: "d < 10"
  have n: "(of_char (char_of (48 + d)) :: nat) = 48 + d"
    using d by simp
  have "(of_char (char_of (48 + d)) :: int) = int (of_char (char_of (48 + d)))"
    by (simp only: of_nat_of_char)
  with n have "(of_char (char_of (48 + d)) :: int) = 48 + int d"
    by simp
  with n d show ?thesis
    by (simp add: is_digit_def digit_val_def digit_char_def)
qed

lemma toString_decimal: "list_all is_digit (toString n) \<and> digits_val (toString n) = int n"
proof (induction n rule: toString.induct)
  case (1 n)
  show ?case
  proof (cases "n < 10")
    case True
    then show ?thesis
      using digit_char_value [of n] by (simp add: toString.simps [of n] digits_val_def)
  next
    case False
    have d: "is_digit (digit_char (n mod 10)) \<and> digit_val (digit_char (n mod 10)) = int (n mod 10)"
      by (rule digit_char_value) simp
    from False 1 d show ?thesis
      by (simp add: toString.simps [of n] digits_val_def zmod_int zdiv_int)
  qed
qed

lemma toString_not_Nil: "toString n \<noteq> []"
  by (subst toString.simps) simp

lemma digit_plain: "is_digit c \<Longrightarrow> \<not> forbidden_in_value c \<and> \<not> http_ws c"
  by (auto simp: is_digit_def forbidden_in_value_def http_ws_def)

lemma toString_plain: "c \<in> set (toString n) \<Longrightarrow> \<not> forbidden_in_value c \<and> \<not> http_ws c"
  using toString_decimal [of n] digit_plain by (auto simp: list_all_iff)

lemma pad_plain: "c \<in> set (pad w n) \<Longrightarrow> \<not> forbidden_in_value c"
  using toString_plain [of c n] by (auto simp: pad_def forbidden_in_value_def)

lemma toISOString_plain: "c \<in> set (toISOString t) \<Longrightarrow> \<not> forbidden_in_value c"
  using pad_plain [of c] by (auto simp: toISOString_def forbidden_in_value_def split: if_splits)

lemma dateStamp_plain: "\<not> list_ex forbidden_in_value (dateStamp t)"
  using toISOString_plain [of _ t] set_takeWhileD [of _ "\<lambda>c. c \<noteq> CHR ''T''" "toISOString t"]
  by (auto simp: dateStamp_def list_ex_iff)

lemma normalize_value_id:
  assumes "v \<noteq> []" and "\<not> http_ws (hd v)" and "\<not> http_ws (last v)"
  shows "normalize_value v = v"
proof -
  have 1: "dropWhile http_ws v = v"
    using assms(1,2) by (cases v) simp_all
  obtain x xs where r: "rev v = x # xs"
    using assms(1) by (cases "rev v") auto
  have "x = last v"
    using r assms(1) hd_rev [of v] by simp
  with assms(3) have 2: "dropWhile http_ws (rev v) = rev v"
    unfolding r by simp
  show ?thesis
    unfolding normalize_value_def 1 2 by simp
qed

lemma normalize_toString: "normalize_value (toString n) = toString n"
proof (rule normalize_value_id)
  show "toString n \<noteq> []" by (rule toString_not_Nil)
  then show "\<not> http_ws (hd (toString n))" "\<not> http_ws (last (toString n))"
    using toString_plain [of _ n] by simp_all
qed

lemma normalize_constants:
  "normalize_value ''text/csv; charset=utf-8'' = ''text/csv; charset=utf-8''"
  "normalize_value ''no-store, no-cache, must-revalidate'' = ''no-store, no-cache, must-revalidate''"
  "valid_header_value ''text/csv; charset=utf-8''"
  "valid_header_value ''no-store, no-cache, must-revalidate''"
  "\<not> list_ex forbidden_in_value ''attachment; filename=''"
  "\<not> list_ex forbidden_in_value ''candidates-''" "\<not> list_ex forbidden_in_value ''campaign-''"
  "\<not> list_ex forbidden_in_value ''-cvs-''" "\<not> list_ex forbidden_in_value ''.csv''"
  "\<not> forbidden_in_value dquote"
  by code_simp+

lemma normalize_disposition:
  "normalize_value (''attachment; filename='' @ [dquote] @ filename @ [dquote]) =
     ''attachment; filename='' @ [dquote] @ filename @ [dquote]"
  by (rule normalize_value_id) (simp_all add: http_ws_def dquote_def)

lemma valid_toString: "valid_header_value (toString n)"
  using toString_plain [of _ n] by (auto simp: valid_header_value_def list_ex_iff)

lemma valid_disposition:
  "valid_header_value (''attachment; filename='' @ [dquote] @ filename @ [dquote]) =
     (\<not> list_ex forbidden_in_value filename)"
  by (simp add: valid_header_value_def forbidden_in_value_def dquote_def)

lemma new_NextResponse_five:
  assumes "normalize_value v1 = v1" "normalize_value v2 = v2" "normalize_value v3 = v3"
    "normalize_value v4 = v4" "normalize_value v5 = v5"
    and "valid_header_value v1" "valid_header_value v3" "valid_header_value v4" "valid_header_value v5"
  shows "valid_header_value v2 \<Longrightarrow>
      new_NextResponse content code [(n1, v1), (n2, v2), (n3, v3), (n4, v4), (n5, v5)] =
        Inr \<lparr>status = code, body = content,
             headers = [(n1, v1), (n2, v2), (n3, v3), (n4, v4), (n5, v5)]\<rparr>"
    and "\<not> valid_header_value v2 \<Longrightarrow>
      new_NextResponse content code [(n1, v1), (n2, v2), (n3, v3), (n4, v4), (n5, v5)] =
        Inl TypeError"
  using assms by (simp_all add: new_NextResponse_def)

text \<open>The constructor refuses the response exactly when the file name holds a NUL, LF or CR.\<close>

lemma csv_response_eq:
  "csv_response content filename h n m =
     (if list_ex forbidden_in_value filename then Inl TypeError
      else Inr \<lparr>status = 200, body = content,
             headers =
               [(''Content-Type'', ''text/csv; charset=utf-8''),
                (''Content-Disposition'', ''attachment; filename='' @ [dquote] @ filename @ [dquote]),
                (''Cache-Control'', ''no-store, no-cache, must-revalidate''),
                (h, toString n),
                (''X-Total-Exported'', toString m)]\<rparr>)"
proof (cases "list_ex forbidden_in_value filename")
  case True
  then have bad: "\<not> valid_header_value (''attachment; filename='' @ [dquote] @ filename @ [dquote])"
    unfolding valid_disposition by blast
  have "csv_response content filename h n m = Inl TypeError"
    unfolding csv_response_def
    by (rule new_NextResponse_five(2) [OF normalize_constants(1) normalize_disposition
          normalize_constants(2) normalize_toString normalize_toString normalize_constants(3,4)
          valid_toString valid_toString bad])
  with True show ?thesis by (simp only: if_True)
next
  case False
  then have good: "valid_header_value (''attachment; filename='' @ [dquote] @ filename @ [dquote])"
    unfolding valid_disposition by blast
  have "csv_response content filename h n m =
      Inr \<lparr>status = 200, body = content,
             headers =
               [(''Content-Type'', ''text/csv; charset=utf-8''),
                (''Content-Disposition'', ''attachment; filename='' @ [dquote] @ filename @ [dquote]),
                (''Cache-Control'', ''no-store, no-cache, must-revalidate''),
                (h, toString n),
                (''X-Total-Exported'', toString m)]\<rparr>"
    unfolding csv_response_def
    by (rule new_NextResponse_five(1) [OF normalize_constants(1) normalize_disposition
          normalize_constants(2) normalize_toString normalize_toString normalize_constants(3,4)
          valid_toString valid_toString good])
  with False show ?thesis by (simp only: if_False)
qed

lemma filename_forbidden:
  "list_ex forbidden_in_value (''candidates-'' @ role @ ''-cvs-'' @ dateStamp now @ ''.csv'') =
     list_ex forbidden_in_value role"
  "list_ex forbidden_in_value (''campaign-'' @ role @ ''-cvs-'' @ dateStamp now @ ''.csv'') =
     list_ex forbidden_in_value role"
  using dateStamp_plain [of now] by (simp_all add: forbidden_in_value_def)

section \<open>The routes: status and local variables\<close>

lemma response_early [simp]: "response (early r :: 'r outcome) = Inr r"
  by (simp add: early_def)

lemma status_of_simps [simp]: "status_of (Inr r) = Some (status r)" "status_of (Inl e) = None"
  by (simp_all add: status_of_def)


lemma status_json_error [simp]: "status (json_error code msg) = code"
  by (simp add: json_error_def)

lemma status_of_csv_response:
  "status_of (csv_response c f h n m) = (if list_ex forbidden_in_value f then None else Some 200)"
  by (simp add: csv_response_eq)

text \<open>
  The local variables and the store traffic of a run that got past the fetch, whether its
  last statement then returns or throws.
\<close>

lemma GET_candidates_reached:
  assumes "isAuthorized e (get sp ''secret'')" and "candidates_role sp \<noteq> []"
    and "fetch_error (db (candidates_role sp)) = None"
  shows "fetched (GET_candidates e db st now sp) =
           (case fetch_data (db (candidates_role sp)) of None \<Rightarrow> [] | Some rows \<Rightarrow> rows)"
    and "filtered (GET_candidates e db st now sp) =
           (if param_includeMissing sp then fetched (GET_candidates e db st now sp)
            else filter (\<lambda>c. has_file_ref (cand_cv_key c)) (fetched (GET_candidates e db st now sp)))"
    and "results (GET_candidates e db st now sp) =
           map (\<lambda>(i, c). fst (candidate_task (st i) (param_bucket sp) (parseExpiresInSeconds sp)
                  (candidates_role sp) c))
             (enumerate 0 (filtered (GET_candidates e db st now sp)))"
    and "response (GET_candidates e db st now sp) =
           csv_response
             (join [CHR 0x0A] (csvLines candidate_headers (results (GET_candidates e db st now sp))))
             (''candidates-'' @ candidates_role sp @ ''-cvs-'' @ dateStamp now @ ''.csv'')
             ''X-Total-Candidates''
             (length (fetched (GET_candidates e db st now sp)))
             (length (results (GET_candidates e db st now sp)))"
    and "db_queries (GET_candidates e db st now sp) =
           [(''candidates'', ''primary_role'', candidates_role sp)]"
    and "store_calls (GET_candidates e db st now sp) =
           concat (map (\<lambda>(i, c). requested (snd (candidate_task (st i) (param_bucket sp)
                  (parseExpiresInSeconds sp) (candidates_role sp) c)))
             (enumerate 0 (filtered (GET_candidates e db st now sp))))"
  using assms by (simp_all add: GET_candidates_def Let_def split_def comp_def)

lemma GET_campaign_reached:
  assumes "isAuthorized e (get sp ''secret'')" and "campaign_position sp \<noteq> []"
    and "fetch_error (db (campaign_position sp)) = None"
  shows "fetched (GET_campaign e db st now sp) =
           (case fetch_data (db (campaign_position sp)) of None \<Rightarrow> [] | Some rows \<Rightarrow> rows)"
    and "filtered (GET_campaign e db st now sp) =
           (if param_includeMissing sp then fetched (GET_campaign e db st now sp)
            else filter (\<lambda>a. has_file_ref (app_cv_url a)) (fetched (GET_campaign e db st now sp)))"
    and "results (GET_campaign e db st now sp) =
           map (\<lambda>(i, a). fst (application_task (st i) (param_bucket sp) (parseExpiresInSeconds sp)
                  (campaign_position sp) a))
             (enumerate 0 (filtered (GET_campaign e db st now sp)))"
    and "response (GET_campaign e db st now sp) =
           csv_response
             (join [CHR 0x0A] (csvLines application_headers (results (GET_campaign e db st now sp))))
             (''campaign-'' @ campaign_position sp @ ''-cvs-'' @ dateStamp now @ ''.csv'')
             ''X-Total-Applications''
             (length (fetched (GET_campaign e db st now sp)))
             (length (results (GET_campaign e db st now sp)))"
    and "db_queries (GET_campaign e db st now sp) =
           [(''campaign_applications'', ''position'', campaign_position sp)]"
    and "store_calls (GET_campaign e db st now sp) =
           concat (map (\<lambda>(i, a). requested (snd (application_task (st i) (param_bucket sp)
                  (parseExpiresInSeconds sp) (campaign_position sp) a)))
             (enumerate 0 (filtered (GET_campaign e db st now sp))))"
  using assms by (simp_all add: GET_campaign_def Let_def split_def comp_def)

text \<open>A run that retains a row got past the fetch.\<close>

lemma GET_candidates_retains:
  assumes "filtered (GET_candidates e db st now sp) \<noteq> []"
  shows "isAuthorized e (get sp ''secret'')" and "candidates_role sp \<noteq> []"
    and "fetch_error (db (candidates_role sp)) = None"
  using assms
  by (auto simp: GET_candidates_def Let_def early_def split: if_splits option.splits)

lemma GET_campaign_retains:
  assumes "filtered (GET_campaign e db st now sp) \<noteq> []"
  shows "isAuthorized e (get sp ''secret'')" and "campaign_position sp \<noteq> []"
    and "fetch_error (db (campaign_position sp)) = None"
  using assms
  by (auto simp: GET_campaign_def Let_def early_def split: if_splits option.splits)

lemma GET_candidates_status:
  "status_of (response (GET_candidates e db st now sp)) =
     (if \<not> isAuthorized e (get sp ''secret'') then Some 403
      else if candidates_role sp = [] then Some 400
      else if fetch_error (db (candidates_role sp)) \<noteq> None then Some 500
      else if list_ex forbidden_in_value (candidates_role sp) then None else Some 200)"
proof -
  consider (forbidden) "\<not> isAuthorized e (get sp ''secret'')"
    | (missing) "isAuthorized e (get sp ''secret'')" "candidates_role sp = []"
    | (failed) x where "isAuthorized e (get sp ''secret'')" "candidates_role sp \<noteq> []"
        "fetch_error (db (candidates_role sp)) = Some x"
    | (reached) "isAuthorized e (get sp ''secret'')" "candidates_role sp \<noteq> []"
        "fetch_error (db (candidates_role sp)) = None"
    by (cases "fetch_error (db (candidates_role sp))") auto
  then show ?thesis
  proof cases
    case forbidden
    then show ?thesis by (simp add: GET_candidates_def)
  next
    case missing
    then show ?thesis by (simp add: GET_candidates_def)
  next
    case failed
    then show ?thesis by (simp add: GET_candidates_def Let_def)
  next
    case reached
    show ?thesis
      unfolding GET_candidates_reached(4) [of e sp db st now, OF reached] status_of_csv_response
        filename_forbidden
      using reached by simp
  qed
qed

lemma GET_campaign_status:
  "status_of (response (GET_campaign e db st now sp)) =
     (if \<not> isAuthorized e (get sp ''secret'') then Some 403
      else if campaign_position sp = [] then Some 400
      else if fetch_error (db (campaign_position sp)) \<noteq> None then Some 500
      else if list_ex forbidden_in_value (campaign_position sp) then None else Some 200)"
proof -
  consider (forbidden) "\<not> isAuthorized e (get sp ''secret'')"
    | (missing) "isAuthorized e (get sp ''secret'')" "campaign_position sp = []"
    | (failed) x where "isAuthorized e (get sp ''secret'')" "campaign_position sp \<noteq> []"
        "fetch_error (db (campaign_position sp)) = Some x"
    | (reached) "isAuthorized e (get sp ''secret'')" "campaign_position sp \<noteq> []"
        "fetch_error (db (campaign_position sp)) = None"
    by (cases "fetch_error (db (campaign_position sp))") auto
  then show ?thesis
  proof cases
    case forbidden
    then show ?thesis by (simp add: GET_campaign_def)
  next
    case missing
    then show ?thesis by (simp add: GET_campaign_def)
  next
    case failed
    then show ?thesis by (simp add: GET_campaign_def Let_def)
  next
    case reached
    show ?thesis
      unfolding GET_campaign_reached(4) [of e sp db st now, OF reached] status_of_csv_response
        filename_forbidden
      using reached by simp
  qed
qed

lemma GET_candidates_200:
  assumes "status_of (response (GET_candidates e db st now sp)) = Some 200"
  shows "isAuthorized e (get sp ''secret'')" and "candidates_role sp \<noteq> []"
    and "fetch_error (db (candidates_role sp)) = None"
    and "\<not> list_ex forbidden_in_value (candidates_role sp)"
  using assms unfolding GET_candidates_status by (simp_all split: if_splits)

lemma GET_campaign_200:
  assumes "status_of (response (GET_campaign e db st now sp)) = Some 200"
  shows "isAuthorized e (get sp ''secret'')" and "campaign_position sp \<noteq> []"
    and "fetch_error (db (campaign_position sp)) = None"
    and "\<not> list_ex forbidden_in_value (campaign_position sp)"
  using assms unfolding GET_campaign_status by (simp_all split: if_splits)

lemma GET_candidates_ok:
  assumes "status_of (response (GET_candidates e db st now sp)) = Some 200"
  shows "fetched (GET_candidates e db st now sp) =
           (case fetch_data (db (candidates_role sp)) of None \<Rightarrow> [] | Some rows \<Rightarrow> rows)"
    and "filtered (GET_candidates e db st now sp) =
           (if param_includeMissing sp then fetched (GET_candidates e db st now sp)
            else filter (\<lambda>c. has_file_ref (cand_cv_key c)) (fetched (GET_candidates e db st now sp)))"
    and "results (GET_candidates e db st now sp) =
           map (\<lambda>(i, c). fst (candidate_task (st i) (param_bucket sp) (parseExpiresInSeconds sp)
                  (candidates_role sp) c))
             (enumerate 0 (filtered (GET_candidates e db st now sp)))"
    and "db_queries (GET_candidates e db st now sp) =
           [(''candidates'', ''primary_role'', candidates_role sp)]"
    and "store_calls (GET_candidates e db st now sp) =
           concat (map (\<lambda>(i, c). requested (snd (candidate_task (st i) (param_bucket sp)
                  (parseExpiresInSeconds sp) (candidates_role sp) c)))
             (enumerate 0 (filtered (GET_candidates e db st now sp))))"
    and "response (GET_candidates e db st now sp) =
           Inr \<lparr>status = 200,
             body = join [CHR 0x0A] (csvLines candidate_headers (results (GET_candidates e db st now sp))),
             headers =
               [(''Content-Type'', ''text/csv; charset=utf-8''),
                (''Content-Disposition'', ''attachment; filename='' @ [dquote] @
                   (''candidates-'' @ candidates_role sp @ ''-cvs-'' @ dateStamp now @ ''.csv'') @ [dquote]),
                (''Cache-Control'', ''no-store, no-cache, must-revalidate''),
                (''X-Total-Candidates'', toString (length (fetched (GET_candidates e db st now sp)))),
                (''X-Total-Exported'', toString (length (results (GET_candidates e db st now sp))))]\<rparr>"
proof -
  note r = GET_candidates_200 [OF assms]
  note f = GET_candidates_reached [of e sp db st now, OF r(1-3)]
  show "fetched (GET_candidates e db st now sp) =
           (case fetch_data (db (candidates_role sp)) of None \<Rightarrow> [] | Some rows \<Rightarrow> rows)"
    by (rule f(1))
  show "filtered (GET_candidates e db st now sp) =
           (if param_includeMissing sp then fetched (GET_candidates e db st now sp)
            else filter (\<lambda>c. has_file_ref (cand_cv_key c)) (fetched (GET_candidates e db st now sp)))"
    by (rule f(2))
  show "results (GET_candidates e db st now sp) =
           map (\<lambda>(i, c). fst (candidate_task (st i) (param_bucket sp) (parseExpiresInSeconds sp)
                  (candidates_role sp) c))
             (enumerate 0 (filtered (GET_candidates e db st now sp)))"
    by (rule f(3))
  show "db_queries (GET_candidates e db st now sp) =
           [(''candidates'', ''primary_role'', candidates_role sp)]"
    by (rule f(5))
  show "store_calls (GET_candidates e db st now sp) =
           concat (map (\<lambda>(i, c). requested (snd (candidate_task (st i) (param_bucket sp)
                  (parseExpiresInSeconds sp) (candidates_role sp) c)))
             (enumerate 0 (filtered (GET_candidates e db st now sp))))"
    by (rule f(6))
  have "\<not> list_ex forbidden_in_value
      (''candidates-'' @ candidates_role sp @ ''-cvs-'' @ dateStamp now @ ''.csv'')"
    unfolding filename_forbidden by (rule r(4))
  then show "response (GET_candidates e db st now sp) =
           Inr \<lparr>status = 200,
             body = join [CHR 0x0A] (csvLines candidate_headers (results (GET_candidates e db st now sp))),
             headers =
               [(''Content-Type'', ''text/csv; charset=utf-8''),
                (''Content-Disposition'', ''attachment; filename='' @ [dquote] @
                   (''candidates-'' @ candidates_role sp @ ''-cvs-'' @ dateStamp now @ ''.csv'') @ [dquote]),
                (''Cache-Control'', ''no-store, no-cache, must-revalidate''),
                (''X-Total-Candidates'', toString (length (fetched (GET_candidates e db st now sp)))),
                (''X-Total-Exported'', toString (length (results (GET_candidates e db st now sp))))]\<rparr>"
    unfolding f(4) csv_response_eq by (simp only: if_False)
qed

lemma GET_campaign_ok:
  assumes "status_of (response (GET_campaign e db st now sp)) = Some 200"
  shows "fetched (GET_campaign e db st now sp) =
           (case fetch_data (db (campaign_position sp)) of None \<Rightarrow> [] | Some rows \<Rightarrow> rows)"
    and "filtered (GET_campaign e db st now sp) =
           (if param_includeMissing sp then fetched (GET_campaign e db st now sp)
            else filter (\<lambda>a. has_file_ref (app_cv_url a)) (fetched (GET_campaign e db st now sp)))"
    and "results (GET_campaign e db st now sp) =
           map (\<lambda>(i, a). fst (application_task (st i) (param_bucket sp) (parseExpiresInSeconds sp)
                  (campaign_position sp) a))
             (enumerate 0 (filtered (GET_campaign e db st now sp)))"
    and "db_queries (GET_campaign e db st now sp) =
           [(''campaign_applications'', ''position'', campaign_position sp)]"
    and "store_calls (GET_campaign e db st now sp) =
           concat (map (\<lambda>(i, a). requested (snd (application_task (st i) (param_bucket sp)
                  (parseExpiresInSeconds sp) (campaign_position sp) a)))
             (enumerate 0 (filtered (GET_campaign e db st now sp))))"
    and "response (GET_campaign e db st now sp) =
           Inr \<lparr>status = 200,
             body = join [CHR 0x0A] (csvLines application_headers (results (GET_campaign e db st now sp))),
             headers =
               [(''Content-Type'', ''text/csv; charset=utf-8''),
                (''Content-Disposition'', ''attachment; filename='' @ [dquote] @
                   (''campaign-'' @ campaign_position sp @ ''-cvs-'' @ dateStamp now @ ''.csv'') @ [dquote]),
                (''Cache-Control'', ''no-store, no-cache, must-revalidate''),
                (''X-Total-Applications'', toString (length (fetched (GET_campaign e db st now sp)))),
                (''X-Total-Exported'', toString (length (results (GET_campaign e db st now sp))))]\<rparr>"
proof -
  note r = GET_campaign_200 [OF assms]
  note f = GET_campaign_reached [of e sp db st now, OF r(1-3)]
  show "fetched (GET_campaign e db st now sp) =
           (case fetch_data (db (campaign_position sp)) of None \<Rightarrow> [] | Some rows \<Rightarrow> rows)"
    by (rule f(1))
  show "filtered (GET_campaign e db st now sp) =
           (if param_includeMissing sp then fetched (GET_campaign e db st now sp)
            else filter (\<lambda>a. has_file_ref (app_cv_url a)) (fetched (GET_campaign e db st now sp)))"
    by (rule f(2))
  show "results (GET_campaign e db st now sp) =
           map (\<lambda>(i, a). fst (application_task (st i) (param_bucket sp) (parseExpiresInSeconds sp)
                  (campaign_position sp) a))
             (enumerate 0 (filtered (GET_campaign e db st now sp)))"
    by (rule f(3))
  show "db_queries (GET_campaign e db st now sp) =
           [(''campaign_applications'', ''position'', campaign_position sp)]"
    by (rule f(5))
  show "store_calls (GET_campaign e db st now sp) =
           concat (map (\<lambda>(i, a). requested (snd (application_task (st i) (param_bucket sp)
                  (parseExpiresInSeconds sp) (campaign_position sp) a)))
             (enumerate 0 (filtered (GET_campaign e db st now sp))))"
    by (rule f(6))
  have "\<not> list_ex forbidden_in_value
      (''campaign-'' @ campaign_position sp @ ''-cvs-'' @ dateStamp now @ ''.csv'')"
    unfolding filename_forbidden by (rule r(4))
  then show "response (GET_campaign e db st now sp) =
           Inr \<lparr>status = 200,
             body = join [CHR 0x0A] (csvLines application_headers (results (GET_campaign e db st now sp))),
             headers =
               [(''Content-Type'', ''text/csv; charset=utf-8''),
                (''Content-Disposition'', ''attachment; filename='' @ [dquote] @
                   (''campaign-'' @ campaign_position sp @ ''-cvs-'' @ dateStamp now @ ''.csv'') @ [dquote]),
                (''Cache-Control'', ''no-store, no-cache, must-revalidate''),
                (''X-Total-Applications'', toString (length (fetched (GET_campaign e db st now sp)))),
                (''X-Total-Exported'', toString (length (results (GET_campaign e db st now sp))))]\<rparr>"
    unfolding f(4) csv_response_eq by (simp only: if_False)
qed

lemma trim_Nil_iff: "trim s = [] \<longleftrightarrow> (\<forall>c \<in> set s. is_ws c)"
proof (cases "dropWhile is_ws s")
  case Nil
  have "trim s = []"
    unfolding trim_def Nil by simp
  moreover from Nil have "\<forall>c \<in> set s. is_ws c"
    by (simp only: dropWhile_eq_Nil_conv)
  ultimately show ?thesis by blast
next
  case (Cons x xs)
  then have x: "\<not> is_ws x"
    using hd_dropWhile [of is_ws s] by simp
  have "x \<in> set s"
    using Cons set_dropWhileD [of x is_ws s] by simp
  with x have r: "\<not> (\<forall>c \<in> set s. is_ws c)" by blast
  have "dropWhile is_ws (rev (x # xs)) \<noteq> []"
    using x by (simp add: dropWhile_eq_Nil_conv del: rev.simps)
  then have "trim s \<noteq> []"
    unfolding trim_def Cons by simp
  with r show ?thesis by blast
qed

lemma has_file_ref_iff:
  "has_file_ref ref \<longleftrightarrow> (\<exists>k. ref = Some k \<and> (\<exists>c \<in> set k. \<not> is_ws c))"
  by (cases ref) (auto simp: has_file_ref_def trim_Nil_iff)

section \<open>The filter on the file reference\<close>

text \<open>
  C7. The flag is true exactly when the \<open>includeMissing\<close> parameter is the string
  \<open>true\<close>. On a 200 response of either route the fetched list is the list the store
  returned; with the flag true the filtered list is the fetched list, every row kept; with
  the flag false the filtered list holds exactly the fetched rows whose file reference has
  a character that is not white space, so never a row whose reference is null, empty or
  white space only.
\<close>

theorem includeMissing_filter:
  "(param_includeMissing sp \<longleftrightarrow> get sp ''includeMissing'' = Some ''true'') \<and>
   (status_of (response (GET_candidates e db st now sp)) = Some 200 \<longrightarrow>
      fetched (GET_candidates e db st now sp) =
        (case fetch_data (db (candidates_role sp)) of None \<Rightarrow> [] | Some rows \<Rightarrow> rows) \<and>
      (param_includeMissing sp \<longrightarrow>
         filtered (GET_candidates e db st now sp) = fetched (GET_candidates e db st now sp)) \<and>
      (\<not> param_includeMissing sp \<longrightarrow>
         (\<forall>r. r \<in> set (filtered (GET_candidates e db st now sp)) \<longleftrightarrow>
            r \<in> set (fetched (GET_candidates e db st now sp)) \<and>
            (\<exists>k. cand_cv_key r = Some k \<and> (\<exists>c \<in> set k. \<not> is_ws c))))) \<and>
   (status_of (response (GET_campaign e db' st now sp)) = Some 200 \<longrightarrow>
      fetched (GET_campaign e db' st now sp) =
        (case fetch_data (db' (campaign_position sp)) of None \<Rightarrow> [] | Some rows \<Rightarrow> rows) \<and>
      (param_includeMissing sp \<longrightarrow>
         filtered (GET_campaign e db' st now sp) = fetched (GET_campaign e db' st now sp)) \<and>
      (\<not> param_includeMissing sp \<longrightarrow>
         (\<forall>r. r \<in> set (filtered (GET_campaign e db' st now sp)) \<longleftrightarrow>
            r \<in> set (fetched (GET_campaign e db' st now sp)) \<and>
            (\<exists>k. app_cv_url r = Some k \<and> (\<exists>c \<in> set k. \<not> is_ws c)))))"
proof (intro conjI impI)
  show "param_includeMissing sp \<longleftrightarrow> get sp ''includeMissing'' = Some ''true''"
    by (simp add: param_includeMissing_def)
next
  assume ok: "status_of (response (GET_candidates e db st now sp)) = Some 200"
  show "fetched (GET_candidates e db st now sp) =
        (case fetch_data (db (candidates_role sp)) of None \<Rightarrow> [] | Some rows \<Rightarrow> rows)"
    by (rule GET_candidates_ok(1) [OF ok])
  { assume "param_includeMissing sp"
    then show "filtered (GET_candidates e db st now sp) = fetched (GET_candidates e db st now sp)"
      by (simp add: GET_candidates_ok(2) [OF ok]) }
  { assume "\<not> param_includeMissing sp"
    then show "\<forall>r. r \<in> set (filtered (GET_candidates e db st now sp)) \<longleftrightarrow>
            r \<in> set (fetched (GET_candidates e db st now sp)) \<and>
            (\<exists>k. cand_cv_key r = Some k \<and> (\<exists>c \<in> set k. \<not> is_ws c))"
      by (simp add: GET_candidates_ok(2) [OF ok] has_file_ref_iff) }
next
  assume ok: "status_of (response (GET_campaign e db' st now sp)) = Some 200"
  show "fetched (GET_campaign e db' st now sp) =
        (case fetch_data (db' (campaign_position sp)) of None \<Rightarrow> [] | Some rows \<Rightarrow> rows)"
    by (rule GET_campaign_ok(1) [OF ok])
  { assume "param_includeMissing sp"
    then show "filtered (GET_campaign e db' st now sp) = fetched (GET_campaign e db' st now sp)"
      by (simp add: GET_campaign_ok(2) [OF ok]) }
  { assume "\<not> param_includeMissing sp"
    then show "\<forall>r. r \<in> set (filtered (GET_campaign e db' st now sp)) \<longleftrightarrow>
            r \<in> set (fetched (GET_campaign e db' st now sp)) \<and>
            (\<exists>k. app_cv_url r = Some k \<and> (\<exists>c \<in> set k. \<not> is_ws c))"
      by (simp add: GET_campaign_ok(2) [OF ok] has_file_ref_iff) }
qed

theorem includeMissing_filter_witness:
  "filtered (GET_candidates dev_env cand_db ok_store clock [(''includeMissing'', ''true'')]) =
     [cand_A, cand_B] \<and>
   cand_A \<in> set (filtered (GET_candidates dev_env cand_db ok_store clock [])) \<and>
   cand_B \<notin> set (filtered (GET_candidates dev_env cand_db ok_store clock [])) \<and>
   filtered (GET_campaign dev_env app_db ok_store clock [(''includeMissing'', ''true'')]) =
     [app_A, app_B] \<and>
   app_A \<in> set (filtered (GET_campaign dev_env app_db ok_store clock [])) \<and>
   app_B \<notin> set (filtered (GET_campaign dev_env app_db ok_store clock []))"
proof -
  let ?all = "[(''includeMissing'', ''true'')]"
  have flag: "param_includeMissing ?all" "\<not> param_includeMissing []"
    by (simp_all add: param_includeMissing_def get_def)
  have c1: "status_of (response (GET_candidates dev_env cand_db ok_store clock ?all)) = Some 200"
    and c2: "status_of (response (GET_candidates dev_env cand_db ok_store clock [])) = Some 200"
    and a1: "status_of (response (GET_campaign dev_env app_db ok_store clock ?all)) = Some 200"
    and a2: "status_of (response (GET_campaign dev_env app_db ok_store clock [])) = Some 200"
    by code_simp+
  have refs: "\<exists>k. cand_cv_key cand_A = Some k \<and> (\<exists>c \<in> set k. \<not> is_ws c)"
    "\<not> (\<exists>k. cand_cv_key cand_B = Some k \<and> (\<exists>c \<in> set k. \<not> is_ws c))"
    "\<exists>k. app_cv_url app_A = Some k \<and> (\<exists>c \<in> set k. \<not> is_ws c)"
    "\<not> (\<exists>k. app_cv_url app_B = Some k \<and> (\<exists>c \<in> set k. \<not> is_ws c))"
    by (simp_all add: cand_A_def cand_B_def app_A_def app_B_def is_ws_def)
  note t1 = includeMissing_filter [of ?all dev_env cand_db ok_store clock app_db]
  note t2 = includeMissing_filter [of "[]" dev_env cand_db ok_store clock app_db]
  have 1: "filtered (GET_candidates dev_env cand_db ok_store clock ?all) = [cand_A, cand_B]"
    using t1 c1 flag(1) by (simp add: cand_db_def)
  have 2: "filtered (GET_campaign dev_env app_db ok_store clock ?all) = [app_A, app_B]"
    using t1 a1 flag(1) by (simp add: app_db_def)
  have f3: "fetched (GET_candidates dev_env cand_db ok_store clock []) = [cand_A, cand_B]"
    using t2 c2 by (simp add: cand_db_def)
  have m3: "\<forall>r. r \<in> set (filtered (GET_candidates dev_env cand_db ok_store clock [])) \<longleftrightarrow>
      r \<in> set (fetched (GET_candidates dev_env cand_db ok_store clock [])) \<and>
      (\<exists>k. cand_cv_key r = Some k \<and> (\<exists>c \<in> set k. \<not> is_ws c))"
    using t2 c2 flag(2) by blast
  have 3: "cand_A \<in> set (filtered (GET_candidates dev_env cand_db ok_store clock []))"
    "cand_B \<notin> set (filtered (GET_candidates dev_env cand_db ok_store clock []))"
    using m3 refs(1,2) by (simp_all add: f3)
  have f4: "fetched (GET_campaign dev_env app_db ok_store clock []) = [app_A, app_B]"
    using t2 a2 by (simp add: app_db_def)
  have m4: "\<forall>r. r \<in> set (filtered (GET_campaign dev_env app_db ok_store clock [])) \<longleftrightarrow>
      r \<in> set (fetched (GET_campaign dev_env app_db ok_store clock [])) \<and>
      (\<exists>k. app_cv_url r = Some k \<and> (\<exists>c \<in> set k. \<not> is_ws c))"
    using t2 a2 flag(2) by blast
  have 4: "app_A \<in> set (filtered (GET_campaign dev_env app_db ok_store clock []))"
    "app_B \<notin> set (filtered (GET_campaign dev_env app_db ok_store clock []))"
    using m4 refs(3,4) by (simp_all add: f4)
  from 1 2 3 4 show ?thesis by blast
qed

section \<open>The role and position parameter\<close>

lemma toLowerCase_Nil_iff: "toLowerCase s = [] \<longleftrightarrow> s = []"
  by (simp add: toLowerCase_def)

lemma or_str_simps:
  "or_str None d = d" "or_str (Some []) d = d" "s \<noteq> [] \<Longrightarrow> or_str (Some s) d = s"
  by (simp_all add: or_str_def)

lemma js_or_simps:
  "js_or None b = b" "js_or (Some []) b = b" "s \<noteq> [] \<Longrightarrow> js_or (Some s) b = Some s"
  by (simp_all add: js_or_def truthy_def)

lemma default_role_normal: "toLowerCase (trim ''elektriker'') = ''elektriker''"
  by code_simp

lemma GET_candidates_not_200:
  assumes "isAuthorized e (get sp ''secret'')"
  shows "candidates_role sp = [] \<Longrightarrow>
           GET_candidates e db st now sp = early (json_error 400 ''Missing role'')"
    and "candidates_role sp \<noteq> [] \<Longrightarrow>
           db_queries (GET_candidates e db st now sp) =
             [(''candidates'', ''primary_role'', candidates_role sp)]"
  using assms by (simp_all add: GET_candidates_def Let_def split: option.splits)

lemma GET_campaign_not_200:
  assumes "isAuthorized e (get sp ''secret'')"
  shows "campaign_position sp = [] \<Longrightarrow>
           GET_campaign e db st now sp = early (json_error 400 ''Missing position'')"
    and "campaign_position sp \<noteq> [] \<Longrightarrow>
           db_queries (GET_campaign e db st now sp) =
             [(''campaign_applications'', ''position'', campaign_position sp)]"
  using assms by (simp_all add: GET_campaign_def Let_def split: option.splits)

text \<open>
  C8, amended. The role used for filtering is the supplied parameter trimmed and
  lower-cased, where the supplied parameter is, on the candidates route, \<open>role\<close> when it
  is present and not empty, else \<open>position\<close> when it is present and not empty, and on
  the campaign route \<open>position\<close> when it is present and not empty; the default
  \<open>elektriker\<close> is used when no such parameter is present, or only empty ones. For an
  authorized request, when the normalized value is empty the route answers 400 with the
  error body naming the missing role or position and sends no query to the store, and
  otherwise it queries the store with the normalized value.
\<close>

theorem role_normalisation:
  "(\<forall>r. get sp ''role'' = Some r \<and> r \<noteq> [] \<longrightarrow> candidates_role sp = toLowerCase (trim r)) \<and>
   (\<forall>p. (get sp ''role'' = None \<or> get sp ''role'' = Some []) \<and> get sp ''position'' = Some p \<and> p \<noteq> [] \<longrightarrow>
        candidates_role sp = toLowerCase (trim p)) \<and>
   ((get sp ''role'' = None \<or> get sp ''role'' = Some []) \<and>
    (get sp ''position'' = None \<or> get sp ''position'' = Some []) \<longrightarrow>
        candidates_role sp = ''elektriker'') \<and>
   (\<forall>p. get sp ''position'' = Some p \<and> p \<noteq> [] \<longrightarrow> campaign_position sp = toLowerCase (trim p)) \<and>
   (get sp ''position'' = None \<or> get sp ''position'' = Some [] \<longrightarrow>
        campaign_position sp = ''elektriker'') \<and>
   (isAuthorized e (get sp ''secret'') \<longrightarrow>
      (candidates_role sp = [] \<longrightarrow>
         response (GET_candidates e db st now sp) = Inr (json_error 400 ''Missing role'') \<and>
         db_queries (GET_candidates e db st now sp) = []) \<and>
      (candidates_role sp \<noteq> [] \<longrightarrow>
         db_queries (GET_candidates e db st now sp) =
           [(''candidates'', ''primary_role'', candidates_role sp)]) \<and>
      (campaign_position sp = [] \<longrightarrow>
         response (GET_campaign e db' st now sp) = Inr (json_error 400 ''Missing position'') \<and>
         db_queries (GET_campaign e db' st now sp) = []) \<and>
      (campaign_position sp \<noteq> [] \<longrightarrow>
         db_queries (GET_campaign e db' st now sp) =
           [(''campaign_applications'', ''position'', campaign_position sp)]))"
proof (intro conjI allI impI)
  fix r assume "get sp ''role'' = Some r \<and> r \<noteq> []"
  then show "candidates_role sp = toLowerCase (trim r)"
    by (simp add: candidates_role_def js_or_simps or_str_simps)
next
  fix p
  assume "(get sp ''role'' = None \<or> get sp ''role'' = Some []) \<and> get sp ''position'' = Some p \<and> p \<noteq> []"
  then show "candidates_role sp = toLowerCase (trim p)"
    by (auto simp: candidates_role_def js_or_simps or_str_simps)
next
  assume "(get sp ''role'' = None \<or> get sp ''role'' = Some []) \<and>
    (get sp ''position'' = None \<or> get sp ''position'' = Some [])"
  then show "candidates_role sp = ''elektriker''"
    using default_role_normal
    by (auto simp: candidates_role_def js_or_simps or_str_simps DEFAULT_ROLE_def)
next
  fix p assume "get sp ''position'' = Some p \<and> p \<noteq> []"
  then show "campaign_position sp = toLowerCase (trim p)"
    by (simp add: campaign_position_def or_str_simps)
next
  assume "get sp ''position'' = None \<or> get sp ''position'' = Some []"
  then show "campaign_position sp = ''elektriker''"
    using default_role_normal
    by (auto simp: campaign_position_def or_str_simps DEFAULT_POSITION_def)
next
  assume a: "isAuthorized e (get sp ''secret'')"
  { assume "candidates_role sp = []"
    then have "GET_candidates e db st now sp = early (json_error 400 ''Missing role'')"
      by (rule GET_candidates_not_200(1) [OF a])
    then show "response (GET_candidates e db st now sp) = Inr (json_error 400 ''Missing role'')"
      and "db_queries (GET_candidates e db st now sp) = []"
      by (simp_all add: early_def) }
  { assume "candidates_role sp \<noteq> []"
    then show "db_queries (GET_candidates e db st now sp) =
           [(''candidates'', ''primary_role'', candidates_role sp)]"
      by (rule GET_candidates_not_200(2) [OF a]) }
  { assume "campaign_position sp = []"
    then have "GET_campaign e db' st now sp = early (json_error 400 ''Missing position'')"
      by (rule GET_campaign_not_200(1) [OF a])
    then show "response (GET_campaign e db' st now sp) = Inr (json_error 400 ''Missing position'')"
      and "db_queries (GET_campaign e db' st now sp) = []"
      by (simp_all add: early_def) }
  { assume "campaign_position sp \<noteq> []"
    then show "db_queries (GET_campaign e db' st now sp) =
           [(''campaign_applications'', ''position'', campaign_position sp)]"
      by (rule GET_campaign_not_200(2) [OF a]) }
qed

text \<open>
  C8, as stated, fails on a parameter that is present and empty: its trimmed, lower-cased
  value is empty, yet the route answers 200 and filters by the default, and on the
  candidates route \<open>position\<close> is used although \<open>role\<close> is present.
\<close>

theorem role_normalisation_counterexample:
  "get [(''role'', [])] ''role'' = Some [] \<and> toLowerCase (trim []) = [] \<and>
   status_of (response (GET_candidates dev_env cand_db ok_store clock [(''role'', [])])) = Some 200 \<and>
   db_queries (GET_candidates dev_env cand_db ok_store clock [(''role'', [])]) =
     [(''candidates'', ''primary_role'', ''elektriker'')] \<and>
   db_queries (GET_candidates dev_env cand_db ok_store clock
       [(''role'', []), (''position'', ''Sveiser'')]) =
     [(''candidates'', ''primary_role'', ''sveiser'')] \<and>
   get [(''position'', [])] ''position'' = Some [] \<and>
   status_of (response (GET_campaign dev_env app_db ok_store clock [(''position'', [])])) = Some 200 \<and>
   db_queries (GET_campaign dev_env app_db ok_store clock [(''position'', [])]) =
     [(''campaign_applications'', ''position'', ''elektriker'')]"
  by code_simp

theorem role_normalisation_witness:
  "candidates_role [(''role'', ''  Sveiser ''), (''position'', ''kokk'')] = ''sveiser'' \<and>
   candidates_role [(''position'', ''Kokk'')] = ''kokk'' \<and>
   candidates_role [] = ''elektriker'' \<and>
   campaign_position [(''position'', ''Kokk'')] = ''kokk'' \<and>
   campaign_position [] = ''elektriker'' \<and>
   response (GET_candidates dev_env cand_db ok_store clock [(''role'', ''  '')]) =
     Inr (json_error 400 ''Missing role'') \<and>
   db_queries (GET_candidates dev_env cand_db ok_store clock [(''role'', ''  '')]) = [] \<and>
   db_queries (GET_candidates dev_env cand_db ok_store clock [(''position'', ''Kokk'')]) =
     [(''candidates'', ''primary_role'', ''kokk'')] \<and>
   response (GET_campaign dev_env app_db ok_store clock [(''position'', ''  '')]) =
     Inr (json_error 400 ''Missing position'') \<and>
   db_queries (GET_campaign dev_env app_db ok_store clock [(''position'', ''  '')]) = [] \<and>
   db_queries (GET_campaign dev_env app_db ok_store clock [(''position'', ''Kokk'')]) =
     [(''campaign_applications'', ''position'', ''kokk'')]"
proof -
  let ?s1 = "[(''role'', ''  Sveiser ''), (''position'', ''kokk'')]"
  let ?s2 = "[(''position'', ''Kokk'')]"
  let ?s4 = "[(''role'', ''  '')]"
  let ?s5 = "[(''position'', ''  '')]"
  have ev: "toLowerCase (trim ''  Sveiser '') = ''sveiser''" "toLowerCase (trim ''Kokk'') = ''kokk''"
    by code_simp+
  have auth: "isAuthorized dev_env (get ?s2 ''secret'')" "isAuthorized dev_env (get ?s4 ''secret'')"
    "isAuthorized dev_env (get ?s5 ''secret'')"
    by (simp_all add: isAuthorized_def dev_env_def)
  have h1: "get ?s1 ''role'' = Some ''  Sveiser '' \<and> ''  Sveiser '' \<noteq> []"
    by (simp add: get_def)
  have 1: "candidates_role ?s1 = ''sveiser''"
    using role_normalisation [of ?s1, THEN conjunct1, rule_format, OF h1] by (simp add: ev)
  have h2: "(get ?s2 ''role'' = None \<or> get ?s2 ''role'' = Some []) \<and>
      get ?s2 ''position'' = Some ''Kokk'' \<and> ''Kokk'' \<noteq> []"
    by (simp add: get_def)
  have 2: "candidates_role ?s2 = ''kokk''"
    using role_normalisation [of ?s2, THEN conjunct2, THEN conjunct1, rule_format, OF h2]
    by (simp add: ev)
  have h3: "(get [] ''role'' = None \<or> get [] ''role'' = Some []) \<and>
      (get [] ''position'' = None \<or> get [] ''position'' = Some [])"
    by (simp add: get_def)
  have 3: "candidates_role [] = ''elektriker''"
    using role_normalisation [of "[]", THEN conjunct2, THEN conjunct2, THEN conjunct1, rule_format,
        OF h3] .
  have h4: "get ?s2 ''position'' = Some ''Kokk'' \<and> ''Kokk'' \<noteq> []"
    by (simp add: get_def)
  have 4: "campaign_position ?s2 = ''kokk''"
    using role_normalisation [of ?s2, THEN conjunct2, THEN conjunct2, THEN conjunct2,
        THEN conjunct1, rule_format, OF h4]
    by (simp add: ev)
  have h5: "get [] ''position'' = None \<or> get [] ''position'' = Some []"
    by (simp add: get_def)
  have 5: "campaign_position [] = ''elektriker''"
    using role_normalisation [of "[]", THEN conjunct2, THEN conjunct2, THEN conjunct2,
        THEN conjunct2, THEN conjunct1, rule_format, OF h5] .
  note g = role_normalisation [THEN conjunct2, THEN conjunct2, THEN conjunct2, THEN conjunct2,
      THEN conjunct2, rule_format]
  have e4: "candidates_role ?s4 = []" and e5: "campaign_position ?s5 = []"
    and n2: "candidates_role ?s2 \<noteq> []" and n2': "campaign_position ?s2 \<noteq> []"
    by code_simp+
  have 6: "response (GET_candidates dev_env cand_db ok_store clock ?s4) =
       Inr (json_error 400 ''Missing role'') \<and>
     db_queries (GET_candidates dev_env cand_db ok_store clock ?s4) = []"
    using g [of dev_env ?s4 cand_db ok_store clock app_db, OF auth(2)] e4 by blast
  have 7: "db_queries (GET_candidates dev_env cand_db ok_store clock ?s2) =
       [(''candidates'', ''primary_role'', ''kokk'')]"
    using g [of dev_env ?s2 cand_db ok_store clock app_db, OF auth(1)] n2 2 by simp
  have 8: "response (GET_campaign dev_env app_db ok_store clock ?s5) =
       Inr (json_error 400 ''Missing position'') \<and>
     db_queries (GET_campaign dev_env app_db ok_store clock ?s5) = []"
    using g [of dev_env ?s5 cand_db ok_store clock app_db, OF auth(3)] e5 by blast
  have 9: "db_queries (GET_campaign dev_env app_db ok_store clock ?s2) =
       [(''campaign_applications'', ''position'', ''kokk'')]"
    using g [of dev_env ?s2 cand_db ok_store clock app_db, OF auth(1)] n2' 4 by simp
  from 1 2 3 4 5 6 7 8 9 show ?thesis by blast
qed

lemma parseExpiresInSeconds_cong:
  "get sp' ''expiresInSeconds'' = get sp ''expiresInSeconds'' \<Longrightarrow>
   get sp' ''expiresInDays'' = get sp ''expiresInDays'' \<Longrightarrow>
   parseExpiresInSeconds sp' = parseExpiresInSeconds sp"
proof -
  assume a: "get sp' ''expiresInSeconds'' = get sp ''expiresInSeconds''"
    and b: "get sp' ''expiresInDays'' = get sp ''expiresInDays''"
  have x: "seconds_rule sp' = seconds_rule sp"
    unfolding seconds_rule_def a ..
  have y: "days_rule sp' = days_rule sp"
    unfolding days_rule_def b ..
  show ?thesis
    unfolding parseExpiresInSeconds_def x y ..
qed

lemma GET_campaign_cong:
  assumes "campaign_position sp' = campaign_position sp"
    and "\<forall>k. k \<noteq> ''position'' \<longrightarrow> get sp' k = get sp k"
  shows "GET_campaign e db st now sp' = GET_campaign e db st now sp"
proof -
  have x: "get sp' ''secret'' = get sp ''secret''"
    "param_includeMissing sp' = param_includeMissing sp"
    "param_bucket sp' = param_bucket sp"
    using assms(2) by (simp_all add: param_includeMissing_def param_bucket_def)
  have y: "parseExpiresInSeconds sp' = parseExpiresInSeconds sp"
    using assms(2) by (intro parseExpiresInSeconds_cong) simp_all
  show ?thesis
    unfolding GET_campaign_def x y assms(1) ..
qed

lemma GET_candidates_cong:
  assumes "candidates_role sp' = candidates_role sp"
    and "\<forall>k. k \<noteq> ''role'' \<and> k \<noteq> ''position'' \<longrightarrow> get sp' k = get sp k"
  shows "GET_candidates e db st now sp' = GET_candidates e db st now sp"
proof -
  have x: "get sp' ''secret'' = get sp ''secret''"
    "param_includeMissing sp' = param_includeMissing sp"
    "param_bucket sp' = param_bucket sp"
    using assms(2) by (simp_all add: param_includeMissing_def param_bucket_def)
  have y: "parseExpiresInSeconds sp' = parseExpiresInSeconds sp"
    using assms(2) by (intro parseExpiresInSeconds_cong) simp_all
  show ?thesis
    unfolding GET_candidates_def x y assms(1) ..
qed

lemma normal_Nil_iff: "toLowerCase (trim s) = [] \<longleftrightarrow> (\<forall>c \<in> set s. is_ws c)"
  by (simp add: toLowerCase_Nil_iff trim_Nil_iff)

lemma default_not_Nil: "toLowerCase (trim ''elektriker'') \<noteq> []"
  by (simp add: default_role_normal)

lemma campaign_position_Nil_iff:
  "campaign_position sp = [] \<longleftrightarrow>
     (\<exists>s. get sp ''position'' = Some s \<and> s \<noteq> [] \<and> (\<forall>c \<in> set s. is_ws c))"
proof (cases "get sp ''position''")
  case None
  then show ?thesis
    using default_not_Nil by (simp add: campaign_position_def or_str_simps DEFAULT_POSITION_def)
next
  case (Some s)
  show ?thesis
  proof (cases "s = []")
    case True
    with Some show ?thesis
      using default_not_Nil by (simp add: campaign_position_def or_str_simps DEFAULT_POSITION_def)
  next
    case False
    with Some show ?thesis
      by (simp add: campaign_position_def or_str_simps normal_Nil_iff)
  qed
qed

lemma candidates_role_Nil_iff:
  "candidates_role sp = [] \<longleftrightarrow>
     (\<exists>s. (get sp ''role'' = Some s \<or>
            (get sp ''role'' = None \<or> get sp ''role'' = Some []) \<and> get sp ''position'' = Some s) \<and>
          s \<noteq> [] \<and> (\<forall>c \<in> set s. is_ws c))"
proof -
  consider (role) r where "get sp ''role'' = Some r" "r \<noteq> []"
    | (pos) p where "get sp ''role'' = None \<or> get sp ''role'' = Some []"
        "get sp ''position'' = Some p" "p \<noteq> []"
    | (none) "get sp ''role'' = None \<or> get sp ''role'' = Some []"
        "get sp ''position'' = None \<or> get sp ''position'' = Some []"
    by (cases "get sp ''role''"; cases "get sp ''position''") auto
  then show ?thesis
  proof cases
    case role
    then have "candidates_role sp = toLowerCase (trim r)"
      by (simp add: candidates_role_def js_or_simps or_str_simps)
    with role show ?thesis
      by (auto simp: normal_Nil_iff)
  next
    case pos
    then have "candidates_role sp = toLowerCase (trim p)"
      by (auto simp: candidates_role_def js_or_simps or_str_simps)
    with pos show ?thesis
      by (auto simp: normal_Nil_iff)
  next
    case none
    then have "candidates_role sp = toLowerCase (trim ''elektriker'')"
      by (auto simp: candidates_role_def js_or_simps or_str_simps DEFAULT_ROLE_def)
    with none show ?thesis
      using default_not_Nil by auto
  qed
qed

text \<open>
  C10, as stated, fails on the candidates route when \<open>position\<close> is supplied beside an
  empty \<open>role\<close>: with a \<open>position\<close> of two spaces the answer is 400, and with the
  \<open>position\<close> kokk the store is queried for kokk and not for the default.
\<close>

theorem empty_role_counterexample:
  "get [(''role'', []), (''position'', ''  '')] ''role'' = Some [] \<and>
   response (GET_candidates dev_env cand_db ok_store clock [(''role'', []), (''position'', ''  '')]) =
     Inr (json_error 400 ''Missing role'') \<and>
   status_of (response (GET_candidates dev_env cand_db ok_store clock
       [(''role'', []), (''position'', ''  '')])) = Some 400 \<and>
   get [(''role'', []), (''position'', ''kokk'')] ''role'' = Some [] \<and>
   candidates_role [(''role'', []), (''position'', ''kokk'')] = ''kokk'' \<and>
   db_queries (GET_candidates dev_env cand_db ok_store clock [(''role'', []), (''position'', ''kokk'')]) =
     [(''candidates'', ''primary_role'', ''kokk'')]"
  by code_simp

text \<open>
  C10, amended. A role or position parameter that is present and empty is treated as an
  absent one: the outcome of either route is the outcome of any request that lacks the
  parameter and agrees on every other key. On the campaign route, and on the candidates
  route when the other of \<open>role\<close> and \<open>position\<close> is absent or empty too, the default
  \<open>elektriker\<close> is applied and the answer is not 400. A 400 answer is reached only when
  the parameter value that the route selects (\<open>role\<close> when it is present and not empty,
  else \<open>position\<close>) is not empty and is white space throughout.
\<close>

theorem empty_role_is_absent:
  "(\<forall>sp'. get sp ''position'' = Some [] \<and> get sp' ''position'' = None \<and>
        (\<forall>k. k \<noteq> ''position'' \<longrightarrow> get sp' k = get sp k) \<longrightarrow>
      GET_campaign e db' st now sp = GET_campaign e db' st now sp') \<and>
   (\<forall>sp'. get sp ''role'' = Some [] \<and> get sp' ''role'' = None \<and>
        (\<forall>k. k \<noteq> ''role'' \<longrightarrow> get sp' k = get sp k) \<longrightarrow>
      GET_candidates e db st now sp = GET_candidates e db st now sp') \<and>
   (\<forall>sp'. get sp ''position'' = Some [] \<and> get sp' ''position'' = None \<and>
        (\<forall>k. k \<noteq> ''position'' \<longrightarrow> get sp' k = get sp k) \<longrightarrow>
      GET_candidates e db st now sp = GET_candidates e db st now sp') \<and>
   (get sp ''position'' = Some [] \<longrightarrow>
      campaign_position sp = ''elektriker'' \<and>
      status_of (response (GET_campaign e db' st now sp)) \<noteq> Some 400) \<and>
   (get sp ''role'' = Some [] \<and> (get sp ''position'' = None \<or> get sp ''position'' = Some []) \<or>
    get sp ''position'' = Some [] \<and> (get sp ''role'' = None \<or> get sp ''role'' = Some []) \<longrightarrow>
      candidates_role sp = ''elektriker'' \<and>
      status_of (response (GET_candidates e db st now sp)) \<noteq> Some 400) \<and>
   (status_of (response (GET_campaign e db' st now sp)) = Some 400 \<longrightarrow>
      (\<exists>s. get sp ''position'' = Some s \<and> s \<noteq> [] \<and> (\<forall>c \<in> set s. is_ws c))) \<and>
   (status_of (response (GET_candidates e db st now sp)) = Some 400 \<longrightarrow>
      (\<exists>s. (get sp ''role'' = Some s \<or>
             (get sp ''role'' = None \<or> get sp ''role'' = Some []) \<and> get sp ''position'' = Some s) \<and>
           s \<noteq> [] \<and> (\<forall>c \<in> set s. is_ws c)))"
proof (intro conjI allI impI)
  fix sp'
  assume a: "get sp ''position'' = Some [] \<and> get sp' ''position'' = None \<and>
        (\<forall>k. k \<noteq> ''position'' \<longrightarrow> get sp' k = get sp k)"
  then have "campaign_position sp' = campaign_position sp"
    by (simp add: campaign_position_def or_str_simps)
  with a show "GET_campaign e db' st now sp = GET_campaign e db' st now sp'"
    using GET_campaign_cong [of sp' sp] by simp
next
  fix sp'
  assume a: "get sp ''role'' = Some [] \<and> get sp' ''role'' = None \<and>
        (\<forall>k. k \<noteq> ''role'' \<longrightarrow> get sp' k = get sp k)"
  then have "get sp' ''position'' = get sp ''position''" by simp
  with a have "candidates_role sp' = candidates_role sp"
    by (simp add: candidates_role_def js_or_simps)
  with a show "GET_candidates e db st now sp = GET_candidates e db st now sp'"
    using GET_candidates_cong [of sp' sp] by simp
next
  fix sp'
  assume a: "get sp ''position'' = Some [] \<and> get sp' ''position'' = None \<and>
        (\<forall>k. k \<noteq> ''position'' \<longrightarrow> get sp' k = get sp k)"
  then have "get sp' ''role'' = get sp ''role''" by simp
  with a have "candidates_role sp' = candidates_role sp"
    by (simp add: candidates_role_def js_or_def truthy_def or_str_def)
  with a show "GET_candidates e db st now sp = GET_candidates e db st now sp'"
    using GET_candidates_cong [of sp' sp] by simp
next
  assume a: "get sp ''position'' = Some []"
  then show "campaign_position sp = ''elektriker''"
    using default_role_normal by (simp add: campaign_position_def or_str_simps DEFAULT_POSITION_def)
  then show "status_of (response (GET_campaign e db' st now sp)) \<noteq> Some 400"
    by (simp add: GET_campaign_status)
next
  assume a: "get sp ''role'' = Some [] \<and> (get sp ''position'' = None \<or> get sp ''position'' = Some []) \<or>
    get sp ''position'' = Some [] \<and> (get sp ''role'' = None \<or> get sp ''role'' = Some [])"
  then show "candidates_role sp = ''elektriker''"
    using default_role_normal
    by (auto simp: candidates_role_def js_or_simps or_str_simps DEFAULT_ROLE_def)
  then show "status_of (response (GET_candidates e db st now sp)) \<noteq> Some 400"
    by (simp add: GET_candidates_status)
next
  assume "status_of (response (GET_campaign e db' st now sp)) = Some 400"
  then have "campaign_position sp = []"
    by (simp add: GET_campaign_status split: if_splits)
  then show "\<exists>s. get sp ''position'' = Some s \<and> s \<noteq> [] \<and> (\<forall>c \<in> set s. is_ws c)"
    by (simp only: campaign_position_Nil_iff)
next
  assume "status_of (response (GET_candidates e db st now sp)) = Some 400"
  then have "candidates_role sp = []"
    by (simp add: GET_candidates_status split: if_splits)
  then show "\<exists>s. (get sp ''role'' = Some s \<or>
             (get sp ''role'' = None \<or> get sp ''role'' = Some []) \<and> get sp ''position'' = Some s) \<and>
           s \<noteq> [] \<and> (\<forall>c \<in> set s. is_ws c)"
    by (simp only: candidates_role_Nil_iff)
qed

theorem empty_role_is_absent_witness:
  "GET_campaign dev_env app_db ok_store clock [(''position'', [])] =
     GET_campaign dev_env app_db ok_store clock [] \<and>
   GET_candidates dev_env cand_db ok_store clock [(''role'', []), (''position'', ''Kokk'')] =
     GET_candidates dev_env cand_db ok_store clock [(''position'', ''Kokk'')] \<and>
   GET_candidates dev_env cand_db ok_store clock [(''position'', [])] =
     GET_candidates dev_env cand_db ok_store clock [] \<and>
   campaign_position [(''position'', [])] = ''elektriker'' \<and>
   status_of (response (GET_campaign dev_env app_db ok_store clock [(''position'', [])])) \<noteq> Some 400 \<and>
   candidates_role [(''role'', [])] = ''elektriker'' \<and>
   status_of (response (GET_candidates dev_env cand_db ok_store clock [(''role'', [])])) \<noteq> Some 400 \<and>
   list_all is_ws ''  ''"
proof -
  let ?p = "[(''position'', [])]"
  let ?r = "[(''role'', []), (''position'', ''Kokk'')]"
  let ?r' = "[(''position'', ''Kokk'')]"
  let ?b = "[(''position'', ''  '')]"
  note t = empty_role_is_absent [where e = dev_env and db = cand_db and db' = app_db
      and st = ok_store and now = clock]
  have h1: "get ?p ''position'' = Some [] \<and> get [] ''position'' = None \<and>
        (\<forall>k. k \<noteq> ''position'' \<longrightarrow> get [] k = get ?p k)"
    by (simp add: get_def)
  have 1: "GET_campaign dev_env app_db ok_store clock ?p = GET_campaign dev_env app_db ok_store clock []"
    using t [of ?p, THEN conjunct1, rule_format, OF h1] .
  have h2: "get ?r ''role'' = Some [] \<and> get ?r' ''role'' = None \<and>
        (\<forall>k. k \<noteq> ''role'' \<longrightarrow> get ?r' k = get ?r k)"
    by (simp add: get_def)
  have 2: "GET_candidates dev_env cand_db ok_store clock ?r =
      GET_candidates dev_env cand_db ok_store clock ?r'"
    using t [of ?r, THEN conjunct2, THEN conjunct1, rule_format, OF h2] .
  have 3: "GET_candidates dev_env cand_db ok_store clock ?p =
      GET_candidates dev_env cand_db ok_store clock []"
    using t [of ?p, THEN conjunct2, THEN conjunct2, THEN conjunct1, rule_format, OF h1] .
  have h4: "get ?p ''position'' = Some []"
    by (simp add: get_def)
  have 4: "campaign_position ?p = ''elektriker'' \<and>
      status_of (response (GET_campaign dev_env app_db ok_store clock ?p)) \<noteq> Some 400"
    using t [of ?p, THEN conjunct2, THEN conjunct2, THEN conjunct2, THEN conjunct1, rule_format,
        OF h4] .
  have h5: "get [(''role'', [])] ''role'' = Some [] \<and>
      (get [(''role'', [])] ''position'' = None \<or> get [(''role'', [])] ''position'' = Some []) \<or>
    get [(''role'', [])] ''position'' = Some [] \<and>
      (get [(''role'', [])] ''role'' = None \<or> get [(''role'', [])] ''role'' = Some [])"
    by (simp add: get_def)
  have 5: "candidates_role [(''role'', [])] = ''elektriker'' \<and>
      status_of (response (GET_candidates dev_env cand_db ok_store clock [(''role'', [])])) \<noteq> Some 400"
    using t [of "[(''role'', [])]", THEN conjunct2, THEN conjunct2, THEN conjunct2, THEN conjunct2,
        THEN conjunct1, rule_format, OF h5] .
  have h6: "status_of (response (GET_campaign dev_env app_db ok_store clock ?b)) = Some 400"
    by code_simp
  have 6: "list_all is_ws ''  ''"
    using t [of ?b, THEN conjunct2, THEN conjunct2, THEN conjunct2, THEN conjunct2,
        THEN conjunct2, THEN conjunct1, rule_format, OF h6]
    by (simp add: get_def list_all_iff)
  from 1 2 3 4 5 6 show ?thesis by blast
qed

section \<open>The signed URL resolver: properties\<close>


lemma blank_ref_key: "blank_ref ref \<longleftrightarrow> or_str (map_option trim ref) [] = []"
  by (cases ref) (auto simp: blank_ref_def or_str_def trim_Nil_iff list_all_iff)

lemma startsWith_Nil: "p \<noteq> [] \<Longrightarrow> \<not> startsWith [] p"
  by (auto simp: startsWith_def)

lemma resolve_cv_blank:
  "blank_ref ref \<Longrightarrow>
   resolve_cv tag csu b x rid ref =
     \<lparr>cvKey = [], cvDownloadUrl = [], cvError = [], requested = [], warned = []\<rparr>"
  by (simp add: resolve_cv_def blank_ref_key)

lemma resolve_cv_url:
  assumes "ref = Some s" and "startsWith (trim s) ''http://'' \<or> startsWith (trim s) ''https://''"
  shows "resolve_cv tag csu b x rid ref =
     \<lparr>cvKey = trim s, cvDownloadUrl = trim s, cvError = [], requested = [], warned = []\<rparr>"
proof -
  have "trim s \<noteq> []"
    using assms(2) startsWith_Nil [of "''http://''"] startsWith_Nil [of "''https://''"] by auto
  then have "or_str (map_option trim ref) [] = trim s"
    by (simp add: assms(1) or_str_def)
  with \<open>trim s \<noteq> []\<close> assms(2) show ?thesis
    by (simp add: resolve_cv_def Let_def)
qed


lemma candidate_task_fields:
  "map_of (fst (candidate_task csu b x role c)) ''cv_key'' =
     Some (cvKey (resolve_cv ''[CANDIDATE_CV_EXPORT] Signed URL error:'' csu b x (cand_id c) (cand_cv_key c)))"
  "map_of (fst (candidate_task csu b x role c)) ''cv_download_url'' =
     Some (cvDownloadUrl (resolve_cv ''[CANDIDATE_CV_EXPORT] Signed URL error:'' csu b x (cand_id c) (cand_cv_key c)))"
  "map_of (fst (candidate_task csu b x role c)) ''cv_error'' =
     Some (cvError (resolve_cv ''[CANDIDATE_CV_EXPORT] Signed URL error:'' csu b x (cand_id c) (cand_cv_key c)))"
  "snd (candidate_task csu b x role c) =
     resolve_cv ''[CANDIDATE_CV_EXPORT] Signed URL error:'' csu b x (cand_id c) (cand_cv_key c)"
  by (simp_all add: candidate_task_def Let_def)

lemma application_task_fields:
  "map_of (fst (application_task csu b x role c)) ''cv_key'' =
     Some (cvKey (resolve_cv ''[CAMPAIGN_CV_EXPORT] Signed URL error:'' csu b x (app_id c) (app_cv_url c)))"
  "map_of (fst (application_task csu b x role c)) ''cv_download_url'' =
     Some (cvDownloadUrl (resolve_cv ''[CAMPAIGN_CV_EXPORT] Signed URL error:'' csu b x (app_id c) (app_cv_url c)))"
  "map_of (fst (application_task csu b x role c)) ''cv_error'' =
     Some (cvError (resolve_cv ''[CAMPAIGN_CV_EXPORT] Signed URL error:'' csu b x (app_id c) (app_cv_url c)))"
  "snd (application_task csu b x role c) =
     resolve_cv ''[CAMPAIGN_CV_EXPORT] Signed URL error:'' csu b x (app_id c) (app_cv_url c)"
  by (simp_all add: application_task_def Let_def)


lemma GET_candidates_row:
  assumes "i < length (filtered (GET_candidates e db st now sp))"
  shows "results (GET_candidates e db st now sp) ! i =
           fst (candidate_task (st i) (param_bucket sp) (parseExpiresInSeconds sp)
             (candidates_role sp) (filtered (GET_candidates e db st now sp) ! i))"
proof -
  from assms have "filtered (GET_candidates e db st now sp) \<noteq> []" by auto
  note r = GET_candidates_reached(3) [of e sp db st now, OF GET_candidates_retains [OF this]]
  from assms show ?thesis
    by (simp add: r nth_enumerate_eq)
qed



lemma GET_campaign_row:
  assumes "i < length (filtered (GET_campaign e db st now sp))"
  shows "results (GET_campaign e db st now sp) ! i =
           fst (application_task (st i) (param_bucket sp) (parseExpiresInSeconds sp)
             (campaign_position sp) (filtered (GET_campaign e db st now sp) ! i))"
proof -
  from assms have "filtered (GET_campaign e db st now sp) \<noteq> []" by auto
  note r = GET_campaign_reached(3) [of e sp db st now, OF GET_campaign_retains [OF this]]
  from assms show ?thesis
    by (simp add: r nth_enumerate_eq)
qed










lemma candidates_plain_row:
  assumes ok: "status_of (response (GET_candidates e db st now sp)) = Some 200"
    and i: "i < length (filtered (GET_candidates e db st now sp))"
  shows "blank_ref (cand_cv_key (filtered (GET_candidates e db st now sp) ! i)) \<Longrightarrow>
      map_of (results (GET_candidates e db st now sp) ! i) ''cv_download_url'' = Some [] \<and>
      map_of (results (GET_candidates e db st now sp) ! i) ''cv_error'' = Some []"
    and "cand_cv_key (filtered (GET_candidates e db st now sp) ! i) = Some s \<and>
        (startsWith (trim s) ''http://'' \<or> startsWith (trim s) ''https://'') \<Longrightarrow>
      map_of (results (GET_candidates e db st now sp) ! i) ''cv_download_url'' = Some (trim s) \<and>
      map_of (results (GET_candidates e db st now sp) ! i) ''cv_error'' = Some []"
  by (simp_all add: GET_candidates_row [OF i] candidate_task_fields resolve_cv_blank
      resolve_cv_url [where s = s])

lemma campaign_plain_row:
  assumes ok: "status_of (response (GET_campaign e db st now sp)) = Some 200"
    and i: "i < length (filtered (GET_campaign e db st now sp))"
  shows "blank_ref (app_cv_url (filtered (GET_campaign e db st now sp) ! i)) \<Longrightarrow>
      map_of (results (GET_campaign e db st now sp) ! i) ''cv_download_url'' = Some [] \<and>
      map_of (results (GET_campaign e db st now sp) ! i) ''cv_error'' = Some []"
    and "app_cv_url (filtered (GET_campaign e db st now sp) ! i) = Some s \<and>
        (startsWith (trim s) ''http://'' \<or> startsWith (trim s) ''https://'') \<Longrightarrow>
      map_of (results (GET_campaign e db st now sp) ! i) ''cv_download_url'' = Some (trim s) \<and>
      map_of (results (GET_campaign e db st now sp) ! i) ''cv_error'' = Some []"
  by (simp_all add: GET_campaign_row [OF i] application_task_fields resolve_cv_blank
      resolve_cv_url [where s = s])

lemma resolve_cv_no_request:
  "blank_ref ref \<or> (\<exists>s. ref = Some s \<and>
      (startsWith (trim s) ''http://'' \<or> startsWith (trim s) ''https://'')) \<Longrightarrow>
   requested (resolve_cv tag csu b x rid ref) = []"
  by (auto simp: resolve_cv_blank resolve_cv_url)

lemma snd_enumerate_mem: "p \<in> set (enumerate n xs) \<Longrightarrow> snd p \<in> set xs"
proof -
  assume "p \<in> set (enumerate n xs)"
  then have "snd p \<in> snd ` set (enumerate n xs)"
    by (rule imageI)
  then show ?thesis
    by (simp only: set_map [symmetric] map_snd_enumerate)
qed

lemma concat_map_Nil: "(\<forall>p \<in> set ps. f p = []) \<Longrightarrow> concat (map f ps) = []"
  by (induction ps) simp_all

lemma candidates_no_calls:
  assumes ok: "status_of (response (GET_candidates e db st now sp)) = Some 200"
    and all: "\<forall>r \<in> set (filtered (GET_candidates e db st now sp)).
       blank_ref (cand_cv_key r) \<or> (\<exists>s. cand_cv_key r = Some s \<and>
         (startsWith (trim s) ''http://'' \<or> startsWith (trim s) ''https://''))"
  shows "store_calls (GET_candidates e db st now sp) = []"
  unfolding GET_candidates_ok(5) [OF ok]
proof (rule concat_map_Nil, rule ballI)
  fix p assume "p \<in> set (enumerate 0 (filtered (GET_candidates e db st now sp)))"
  then have "snd p \<in> set (filtered (GET_candidates e db st now sp))"
    by (rule snd_enumerate_mem)
  with all show "(case p of (i, c) \<Rightarrow> requested (snd (candidate_task (st i) (param_bucket sp)
      (parseExpiresInSeconds sp) (candidates_role sp) c))) = []"
    by (cases p) (simp add: candidate_task_fields resolve_cv_no_request)
qed

lemma campaign_no_calls:
  assumes ok: "status_of (response (GET_campaign e db st now sp)) = Some 200"
    and all: "\<forall>r \<in> set (filtered (GET_campaign e db st now sp)).
       blank_ref (app_cv_url r) \<or> (\<exists>s. app_cv_url r = Some s \<and>
         (startsWith (trim s) ''http://'' \<or> startsWith (trim s) ''https://''))"
  shows "store_calls (GET_campaign e db st now sp) = []"
  unfolding GET_campaign_ok(5) [OF ok]
proof (rule concat_map_Nil, rule ballI)
  fix p assume "p \<in> set (enumerate 0 (filtered (GET_campaign e db st now sp)))"
  then have "snd p \<in> set (filtered (GET_campaign e db st now sp))"
    by (rule snd_enumerate_mem)
  with all show "(case p of (i, c) \<Rightarrow> requested (snd (application_task (st i) (param_bucket sp)
      (parseExpiresInSeconds sp) (campaign_position sp) c))) = []"
    by (cases p) (simp add: application_task_fields resolve_cv_no_request)
qed

text \<open>
  C3, as stated, fails on a reference with white space around it: the file reference
  \<open>https://host/file.pdf\<close> followed by a space begins with \<open>https://\<close>, and the
  download URL is not that reference but the reference without the space.
\<close>

theorem file_reference_counterexample:
  "startsWith ''https://host/file.pdf '' ''https://'' \<and>
   ''https://host/file.pdf'' \<noteq> ''https://host/file.pdf '' \<and>
   cand_cv_key cand_D = Some ''https://host/file.pdf '' \<and>
   filtered (GET_candidates dev_env cand_db_url ok_store clock []) = [cand_D] \<and>
   map_of (results (GET_candidates dev_env cand_db_url ok_store clock []) ! 0) ''cv_download_url'' =
     Some ''https://host/file.pdf'' \<and>
   app_cv_url app_D = Some ''https://host/file.pdf '' \<and>
   filtered (GET_campaign dev_env app_db_url ok_store clock []) = [app_D] \<and>
   map_of (results (GET_campaign dev_env app_db_url ok_store clock []) ! 0) ''cv_download_url'' =
     Some ''https://host/file.pdf''"
  by code_simp

text \<open>
  C3, amended. For every file reference: when it is null, empty or white space only, no
  signed URL is requested and the download URL and the error are both empty; when the
  reference with the white space at its two ends removed begins with \<open>http://\<close> or
  \<open>https://\<close>, that trimmed reference is the download URL, the error is empty and no
  signed URL is requested. So it is for the ExportRow of every retained row of a 200
  response on either route, and a request whose retained rows are all of these two kinds
  sends nothing to the object store.
\<close>

theorem file_reference_resolution:
  fixes e :: env and st :: storage and db db' now sp
  defines "c \<equiv> GET_candidates e db st now sp" and "a \<equiv> GET_campaign e db' st now sp"
  shows
  "(\<forall>tag csu b x rid ref.
      (blank_ref ref \<longrightarrow>
         resolve_cv tag csu b x rid ref =
           \<lparr>cvKey = [], cvDownloadUrl = [], cvError = [], requested = [], warned = []\<rparr>) \<and>
      (\<forall>s. ref = Some s \<and> (startsWith (trim s) ''http://'' \<or> startsWith (trim s) ''https://'') \<longrightarrow>
         resolve_cv tag csu b x rid ref =
           \<lparr>cvKey = trim s, cvDownloadUrl = trim s, cvError = [], requested = [], warned = []\<rparr>)) \<and>
   (status_of (response c) = Some 200 \<longrightarrow>
      (\<forall>i < length (filtered c).
         (blank_ref (cand_cv_key (filtered c ! i)) \<longrightarrow>
            map_of (results c ! i) ''cv_download_url'' = Some [] \<and>
            map_of (results c ! i) ''cv_error'' = Some []) \<and>
         (\<forall>s. cand_cv_key (filtered c ! i) = Some s \<and>
              (startsWith (trim s) ''http://'' \<or> startsWith (trim s) ''https://'') \<longrightarrow>
            map_of (results c ! i) ''cv_download_url'' = Some (trim s) \<and>
            map_of (results c ! i) ''cv_error'' = Some [])) \<and>
      ((\<forall>r \<in> set (filtered c). blank_ref (cand_cv_key r) \<or>
           (\<exists>s. cand_cv_key r = Some s \<and>
              (startsWith (trim s) ''http://'' \<or> startsWith (trim s) ''https://''))) \<longrightarrow>
         store_calls c = [])) \<and>
   (status_of (response a) = Some 200 \<longrightarrow>
      (\<forall>i < length (filtered a).
         (blank_ref (app_cv_url (filtered a ! i)) \<longrightarrow>
            map_of (results a ! i) ''cv_download_url'' = Some [] \<and>
            map_of (results a ! i) ''cv_error'' = Some []) \<and>
         (\<forall>s. app_cv_url (filtered a ! i) = Some s \<and>
              (startsWith (trim s) ''http://'' \<or> startsWith (trim s) ''https://'') \<longrightarrow>
            map_of (results a ! i) ''cv_download_url'' = Some (trim s) \<and>
            map_of (results a ! i) ''cv_error'' = Some [])) \<and>
      ((\<forall>r \<in> set (filtered a). blank_ref (app_cv_url r) \<or>
           (\<exists>s. app_cv_url r = Some s \<and>
              (startsWith (trim s) ''http://'' \<or> startsWith (trim s) ''https://''))) \<longrightarrow>
         store_calls a = []))"
proof (intro conjI allI impI)
  fix tag csu b x rid ref
  { assume "blank_ref ref"
    then show "resolve_cv tag csu b x rid ref =
           \<lparr>cvKey = [], cvDownloadUrl = [], cvError = [], requested = [], warned = []\<rparr>"
      by (rule resolve_cv_blank) }
  { fix s
    assume "ref = Some s \<and> (startsWith (trim s) ''http://'' \<or> startsWith (trim s) ''https://'')"
    then show "resolve_cv tag csu b x rid ref =
           \<lparr>cvKey = trim s, cvDownloadUrl = trim s, cvError = [], requested = [], warned = []\<rparr>"
      by (intro resolve_cv_url) simp_all }
next
  fix i
  assume ok: "status_of (response c) = Some 200" and i: "i < length (filtered c)"
  note r = candidates_plain_row [OF ok [unfolded c_def] i [unfolded c_def], folded c_def]
  { assume "blank_ref (cand_cv_key (filtered c ! i))"
    then show "map_of (results c ! i) ''cv_download_url'' = Some []"
      and "map_of (results c ! i) ''cv_error'' = Some []"
      using r(1) by simp_all }
  { fix s
    assume "cand_cv_key (filtered c ! i) = Some s \<and>
              (startsWith (trim s) ''http://'' \<or> startsWith (trim s) ''https://'')"
    then show "map_of (results c ! i) ''cv_download_url'' = Some (trim s)"
      and "map_of (results c ! i) ''cv_error'' = Some []"
      using r(2) [of s] by simp_all }
next
  assume "status_of (response c) = Some 200"
    and "\<forall>r \<in> set (filtered c). blank_ref (cand_cv_key r) \<or>
           (\<exists>s. cand_cv_key r = Some s \<and>
              (startsWith (trim s) ''http://'' \<or> startsWith (trim s) ''https://''))"
  then show "store_calls c = []"
    unfolding c_def by (rule candidates_no_calls)
next
  fix i
  assume ok: "status_of (response a) = Some 200" and i: "i < length (filtered a)"
  note r = campaign_plain_row [OF ok [unfolded a_def] i [unfolded a_def], folded a_def]
  { assume "blank_ref (app_cv_url (filtered a ! i))"
    then show "map_of (results a ! i) ''cv_download_url'' = Some []"
      and "map_of (results a ! i) ''cv_error'' = Some []"
      using r(1) by simp_all }
  { fix s
    assume "app_cv_url (filtered a ! i) = Some s \<and>
              (startsWith (trim s) ''http://'' \<or> startsWith (trim s) ''https://'')"
    then show "map_of (results a ! i) ''cv_download_url'' = Some (trim s)"
      and "map_of (results a ! i) ''cv_error'' = Some []"
      using r(2) [of s] by simp_all }
next
  assume "status_of (response a) = Some 200"
    and "\<forall>r \<in> set (filtered a). blank_ref (app_cv_url r) \<or>
           (\<exists>s. app_cv_url r = Some s \<and>
              (startsWith (trim s) ''http://'' \<or> startsWith (trim s) ''https://''))"
  then show "store_calls a = []"
    unfolding a_def by (rule campaign_no_calls)
qed

theorem file_reference_resolution_witness:
  "resolve_cv ''tag'' (ok_store 0) ''candidate-cvs'' 60 ''c9'' (Some ''  '') =
     \<lparr>cvKey = [], cvDownloadUrl = [], cvError = [], requested = [], warned = []\<rparr> \<and>
   resolve_cv ''tag'' (ok_store 0) ''candidate-cvs'' 60 ''c9'' (Some '' http://a/b '') =
     \<lparr>cvKey = ''http://a/b'', cvDownloadUrl = ''http://a/b'', cvError = [], requested = [],
      warned = []\<rparr> \<and>
   map_of (results (GET_candidates dev_env cand_db_url ok_store clock [(''includeMissing'', ''true'')]) ! 0)
     ''cv_download_url'' = Some ''https://host/file.pdf'' \<and>
   map_of (results (GET_candidates dev_env cand_db_url ok_store clock [(''includeMissing'', ''true'')]) ! 1)
     ''cv_download_url'' = Some [] \<and>
   map_of (results (GET_candidates dev_env cand_db_url ok_store clock [(''includeMissing'', ''true'')]) ! 1)
     ''cv_error'' = Some [] \<and>
   store_calls (GET_candidates dev_env cand_db_url ok_store clock [(''includeMissing'', ''true'')]) = [] \<and>
   map_of (results (GET_campaign dev_env app_db_url ok_store clock [(''includeMissing'', ''true'')]) ! 0)
     ''cv_download_url'' = Some ''https://host/file.pdf'' \<and>
   map_of (results (GET_campaign dev_env app_db_url ok_store clock [(''includeMissing'', ''true'')]) ! 1)
     ''cv_download_url'' = Some [] \<and>
   map_of (results (GET_campaign dev_env app_db_url ok_store clock [(''includeMissing'', ''true'')]) ! 1)
     ''cv_error'' = Some [] \<and>
   store_calls (GET_campaign dev_env app_db_url ok_store clock [(''includeMissing'', ''true'')]) = []"
proof -
  let ?sp = "[(''includeMissing'', ''true'')]"
  let ?c = "GET_candidates dev_env cand_db_url ok_store clock ?sp"
  let ?a = "GET_campaign dev_env app_db_url ok_store clock ?sp"
  note t = file_reference_resolution [where e = dev_env and db = cand_db_url and db' = app_db_url
      and st = ok_store and now = clock and sp = ?sp]
  note res = t [THEN conjunct1, rule_format]
  have b1: "blank_ref (Some ''  '')"
    by code_simp
  have 1: "resolve_cv ''tag'' (ok_store 0) ''candidate-cvs'' 60 ''c9'' (Some ''  '') =
     \<lparr>cvKey = [], cvDownloadUrl = [], cvError = [], requested = [], warned = []\<rparr>"
    using res [THEN conjunct1, rule_format, OF b1] .
  have tr: "trim '' http://a/b '' = ''http://a/b''" "trim ''https://host/file.pdf '' = ''https://host/file.pdf''"
    by code_simp+
  have u2: "Some '' http://a/b '' = Some '' http://a/b '' \<and>
      (startsWith (trim '' http://a/b '') ''http://'' \<or> startsWith (trim '' http://a/b '') ''https://'')"
    by code_simp
  have 2: "resolve_cv ''tag'' (ok_store 0) ''candidate-cvs'' 60 ''c9'' (Some '' http://a/b '') =
     \<lparr>cvKey = ''http://a/b'', cvDownloadUrl = ''http://a/b'', cvError = [], requested = [],
      warned = []\<rparr>"
    using res [THEN conjunct2, rule_format, OF u2, of "''tag''" "ok_store 0" "''candidate-cvs''" 60 "''c9''"]
    by (simp add: tr)
  have okc: "status_of (response ?c) = Some 200" and oka: "status_of (response ?a) = Some 200"
    by code_simp+
  have fc: "filtered ?c = [cand_D, cand_B]" and fa: "filtered ?a = [app_D, app_B]"
    by code_simp+
  have i0c: "0 < length (filtered ?c)" and i1c: "1 < length (filtered ?c)"
    and i0a: "0 < length (filtered ?a)" and i1a: "1 < length (filtered ?a)"
    by (simp_all add: fc fa)
  have kD: "cand_cv_key (filtered ?c ! 0) = Some ''https://host/file.pdf '' \<and>
      (startsWith (trim ''https://host/file.pdf '') ''http://'' \<or>
       startsWith (trim ''https://host/file.pdf '') ''https://'')"
    and kB: "blank_ref (cand_cv_key (filtered ?c ! 1))"
    and kD': "app_cv_url (filtered ?a ! 0) = Some ''https://host/file.pdf '' \<and>
      (startsWith (trim ''https://host/file.pdf '') ''http://'' \<or>
       startsWith (trim ''https://host/file.pdf '') ''https://'')"
    and kB': "blank_ref (app_cv_url (filtered ?a ! 1))"
    by code_simp+
  note c = t [THEN conjunct2, THEN conjunct1, THEN mp, OF okc]
  note a = t [THEN conjunct2, THEN conjunct2, THEN mp, OF oka]
  have 3: "map_of (results ?c ! 0) ''cv_download_url'' = Some ''https://host/file.pdf''"
    using c [THEN conjunct1, rule_format, OF i0c, THEN conjunct2, rule_format, OF kD]
    by (simp add: tr)
  have 4: "map_of (results ?c ! 1) ''cv_download_url'' = Some [] \<and>
      map_of (results ?c ! 1) ''cv_error'' = Some []"
    using c [THEN conjunct1, rule_format, OF i1c, THEN conjunct1, rule_format, OF kB] .
  have allc: "\<forall>r \<in> set (filtered ?c). blank_ref (cand_cv_key r) \<or>
           (\<exists>s. cand_cv_key r = Some s \<and>
              (startsWith (trim s) ''http://'' \<or> startsWith (trim s) ''https://''))"
    using kD kB by (simp add: fc)
  have 5: "store_calls ?c = []"
    using c [THEN conjunct2, THEN mp, OF allc] .
  have 6: "map_of (results ?a ! 0) ''cv_download_url'' = Some ''https://host/file.pdf''"
    using a [THEN conjunct1, rule_format, OF i0a, THEN conjunct2, rule_format, OF kD']
    by (simp add: tr)
  have 7: "map_of (results ?a ! 1) ''cv_download_url'' = Some [] \<and>
      map_of (results ?a ! 1) ''cv_error'' = Some []"
    using a [THEN conjunct1, rule_format, OF i1a, THEN conjunct1, rule_format, OF kB'] .
  have alla: "\<forall>r \<in> set (filtered ?a). blank_ref (app_cv_url r) \<or>
           (\<exists>s. app_cv_url r = Some s \<and>
              (startsWith (trim s) ''http://'' \<or> startsWith (trim s) ''https://''))"
    using kD' kB' by (simp add: fa)
  have 8: "store_calls ?a = []"
    using a [THEN conjunct2, THEN mp, OF alla] .
  from 1 2 3 4 5 6 7 8 show ?thesis by blast
qed

section \<open>The response: counts and CSV records\<close>
















end
